theory Spec2Isabelle
  imports Main
begin

section \<open>Python values used by the access layer of App.py\<close>

text \<open>
  Decoded JSON, as \<open>response.json()\<close> returns it and as the request bodies are built.
  \<open>JNull\<close> is Python's \<open>None\<close>; numbers are integers (no claim depends on floats);
  a dict is an association list, looked up with \<open>map_of\<close>. Characters stand for code
  points below 256.
\<close>

datatype json =
    JNull
  | JBool bool
  | JNum int
  | JStr string
  | JArr "json list"
  | JObj "(string \<times> json) list"

text \<open>Python truthiness, as tested by \<open>if data:\<close>.\<close>

fun truthy :: "json \<Rightarrow> bool" where
  "truthy JNull = False"
| "truthy (JBool b) = b"
| "truthy (JNum n) = (n \<noteq> 0)"
| "truthy (JStr s) = (s \<noteq> [])"
| "truthy (JArr xs) = (xs \<noteq> [])"
| "truthy (JObj kvs) = (kvs \<noteq> [])"

datatype py_exn = AttributeError | KeyError | IndexError | TypeError

text \<open>\<open>d.get(k, default)\<close>: only a dict has the method, anything else raises AttributeError.\<close>

fun dict_get :: "json \<Rightarrow> string \<Rightarrow> json \<Rightarrow> py_exn + json" where
  "dict_get (JObj kvs) k dflt = Inr (case map_of kvs k of None \<Rightarrow> dflt | Some v \<Rightarrow> v)"
| "dict_get _ k dflt = Inl AttributeError"

subsection \<open>\<open>str()\<close> and f-string formatting\<close>

definition digit_char :: "nat \<Rightarrow> char" where
  "digit_char d = ''0123456789abcdef'' ! d"

fun show_nat :: "nat \<Rightarrow> string" where
  "show_nat n = (if n < 10 then [digit_char n] else show_nat (n div 10) @ [digit_char (n mod 10)])"

declare show_nat.simps [simp del]

definition show_int :: "int \<Rightarrow> string" where
  "show_int i = (if i < 0 then CHR ''-'' # show_nat (nat (- i)) else show_nat (nat i))"

definition repr_char :: "char \<Rightarrow> char \<Rightarrow> string" where
  "repr_char q c =
     (let n = (of_char c :: nat) in
      if c = CHR 0x5C then [CHR 0x5C, CHR 0x5C]
      else if c = q then [CHR 0x5C, q]
      else if c = CHR 0x0A then [CHR 0x5C, CHR ''n'']
      else if c = CHR 0x0D then [CHR 0x5C, CHR ''r'']
      else if c = CHR 0x09 then [CHR 0x5C, CHR ''t'']
      else if n < 32 \<or> (127 \<le> n \<and> n \<le> 160) \<or> n = 173
        then [CHR 0x5C, CHR ''x'', digit_char (n div 16), digit_char (n mod 16)]
      else [c])"

definition str_repr :: "string \<Rightarrow> string" where
  "str_repr s =
     (let q = (if CHR 0x27 \<in> set s \<and> CHR 0x22 \<notin> set s then CHR 0x22 else CHR 0x27)
      in q # concat (map (repr_char q) s) @ [q])"

fun join_comma :: "string list \<Rightarrow> string" where
  "join_comma [] = []"
| "join_comma [x] = x"
| "join_comma (x # y # ys) = x @ '', '' @ join_comma (y # ys)"

primrec py_repr :: "json \<Rightarrow> string" where
  "py_repr JNull = ''None''"
| "py_repr (JBool b) = (if b then ''True'' else ''False'')"
| "py_repr (JNum n) = show_int n"
| "py_repr (JStr s) = str_repr s"
| "py_repr (JArr xs) = ''['' @ join_comma (map py_repr xs) @ '']''"
| "py_repr (JObj kvs) =
     ''{'' @ join_comma (map (\<lambda>(k, r). str_repr k @ '': '' @ r) (map (map_prod id py_repr) kvs)) @ ''}''"

text \<open>\<open>str(v)\<close>, which an f-string applies to an interpolated value.\<close>

definition py_str :: "json \<Rightarrow> string" where
  "py_str v = (case v of JStr s \<Rightarrow> s | _ \<Rightarrow> py_repr v)"

text \<open>An error slot of a result pair is a message or \<open>None\<close>.\<close>

definition fmt_error :: "string option \<Rightarrow> string" where
  "fmt_error e = (case e of None \<Rightarrow> ''None'' | Some m \<Rightarrow> m)"

text \<open>\<open>a or b\<close> on two error slots: the first one that is neither \<open>None\<close> nor empty.\<close>

definition py_or :: "string option \<Rightarrow> string option \<Rightarrow> string option" where
  "py_or a b = (case a of None \<Rightarrow> b | Some m \<Rightarrow> if m = [] then b else a)"

text \<open>\<open>str.strip()\<close> removes leading and trailing whitespace.\<close>

definition py_isspace :: "char \<Rightarrow> bool" where
  "py_isspace c =
     (let n = (of_char c :: nat) in (9 \<le> n \<and> n \<le> 13) \<or> (28 \<le> n \<and> n \<le> 32) \<or> n = 133 \<or> n = 160)"

definition py_strip :: "string \<Rightarrow> string" where
  "py_strip s = rev (dropWhile py_isspace (rev (dropWhile py_isspace s)))"

section \<open>HTTP client: the body of \<open>make_api_request\<close> (App.py, lines 83-131)\<close>

text \<open>The arguments of \<open>make_api_request\<close> (\<open>http_method\<close> is its \<open>method\<close>); \<open>files\<close> maps a form
  field to the uploaded bytes.\<close>

record api_args =
  endpoint :: string
  http_method :: string
  data :: json
  params :: json
  files :: "(string \<times> string) list option"
  use_cache :: bool

text \<open>A call with only the endpoint given takes the defaults of the signature.\<close>

definition default_args :: "string \<Rightarrow> api_args" where
  "default_args ep =
     \<lparr>endpoint = ep, http_method = ''GET'', data = JNull, params = JNull, files = None, use_cache = True\<rparr>"

text \<open>What is handed to \<open>requests.get/post/put/delete\<close>.\<close>

record http_call =
  verb :: string
  url :: string
  headers :: "(string \<times> string) list"
  query :: json
  json_body :: json
  multipart :: "(string \<times> string) list option"
  timeout :: nat

text \<open>
  What the call gives back: a response (status code, the result of \<open>response.json()\<close>,
  which is the decoder's error text when the body is not JSON, and \<open>response.text\<close>) or
  one of the exceptions the \<open>try\<close> block distinguishes.
\<close>

datatype http_outcome =
    Response nat "string + json" string
  | TimeoutExc
  | ConnectionExc
  | OtherExc string

type_synonym api_result = "json \<times> string option"

definition base_url :: string where
  "base_url = ''https://getlate.dev/api/v1''"

definition auth_headers :: "string \<Rightarrow> (string \<times> string) list" where
  "auth_headers key =
     [(''Authorization'', ''Bearer '' @ key), (''Content-Type'', ''application/json'')]"

definition files_given :: "(string \<times> string) list option \<Rightarrow> bool" where
  "files_given f = (case f of None \<Rightarrow> False | Some kvs \<Rightarrow> kvs \<noteq> [])"

text \<open>
  The \<open>if method == ...\<close> chain. A method outside the four leaves \<open>response\<close> unbound:
  no call is made and the read of \<open>response\<close> raises inside the \<open>try\<close>.
\<close>

definition build_call :: "string \<Rightarrow> api_args \<Rightarrow> http_call option" where
  "build_call key a =
     (let u = base_url @ endpoint a; hs = auth_headers key in
      if http_method a = ''GET'' then
        Some \<lparr>verb = ''GET'', url = u, headers = hs, query = params a, json_body = JNull,
              multipart = None, timeout = 30\<rparr>
      else if http_method a = ''POST'' then
        (if files_given (files a) then
           Some \<lparr>verb = ''POST'', url = u,
                 headers = filter (\<lambda>h. fst h \<noteq> ''Content-Type'') hs,
                 query = JNull, json_body = JNull, multipart = files a, timeout = 60\<rparr>
         else
           Some \<lparr>verb = ''POST'', url = u, headers = hs, query = JNull, json_body = data a,
                 multipart = None, timeout = 30\<rparr>)
      else if http_method a = ''PUT'' then
        Some \<lparr>verb = ''PUT'', url = u, headers = hs, query = JNull, json_body = data a,
              multipart = None, timeout = 30\<rparr>
      else if http_method a = ''DELETE'' then
        Some \<lparr>verb = ''DELETE'', url = u, headers = hs, query = JNull, json_body = JNull,
              multipart = None, timeout = 30\<rparr>
      else None)"

definition unbound_response :: string where
  "unbound_response =
     ''cannot access local variable 'response' where it is not associated with a value''"

text \<open>Lines 120-123: the \<open>message\<close> field of a JSON object, else the raw body text.\<close>

definition error_detail :: "string + json \<Rightarrow> string \<Rightarrow> json" where
  "error_detail body txt =
     (case body of
        Inl _ \<Rightarrow> JStr txt
      | Inr j \<Rightarrow> (case dict_get j ''message'' (JStr txt) of Inl _ \<Rightarrow> JStr txt | Inr v \<Rightarrow> v))"

text \<open>Lines 111-131: status codes and exceptions to a \<open>(data, error)\<close> pair.\<close>

definition classify :: "http_outcome \<Rightarrow> api_result" where
  "classify out =
     (case out of
        Response st body txt \<Rightarrow>
          if st = 200 \<or> st = 201 then
            (case body of
               Inr j \<Rightarrow> (j, None)
             | Inl e \<Rightarrow> (JNull, Some (''Request failed: '' @ e)))
          else if st = 401 then (JNull, Some ''Unauthorized: Please check your API key'')
          else if st = 429 then (JNull, Some ''Rate limit exceeded. Please try again later'')
          else if st = 500 then (JNull, Some ''Server error. Please try again later'')
          else (JNull, Some (''Error '' @ show_nat st @ '': '' @ py_str (error_detail body txt)))
      | TimeoutExc \<Rightarrow> (JNull, Some ''Request timed out. Please try again'')
      | ConnectionExc \<Rightarrow>
          (JNull, Some ''Connection error. Please check your internet connection'')
      | OtherExc e \<Rightarrow> (JNull, Some (''Request failed: '' @ e)))"

text \<open>
  The undecorated function: the result and the network calls it made (none or one).
  \<open>net\<close> is the remote side, answering each call.
\<close>

definition make_api_request_body ::
  "(http_call \<Rightarrow> http_outcome) \<Rightarrow> string \<Rightarrow> api_args \<Rightarrow> api_result \<times> http_call list" where
  "make_api_request_body net key a =
     (if key = [] then ((JNull, Some ''API key not provided''), [])
      else
        (case build_call key a of
           None \<Rightarrow> ((JNull, Some (''Request failed: '' @ unbound_response)), [])
         | Some c \<Rightarrow> (classify (net c), [c])))"

section \<open>Session state and the response cache\<close>

text \<open>
  What a run observes: a look-up by the cache decorator, an execution of the decorated
  body, a call that reached the network.
\<close>

datatype event = Lookup api_args | BodyRun api_args | NetCall http_call

text \<open>
  \<open>st.session_state\<close> (lines 70-79), the store of \<open>@st.cache_data(ttl=300)\<close> on
  \<open>make_api_request\<close> (each entry with the clock reading at which it was stored), and
  the events so far.
\<close>

record world =
  api_key :: string
  profiles :: json
  accounts :: json
  posts_cache :: json
  last_refresh :: "nat option"
  cache :: "api_args \<rightharpoonup> (api_result \<times> nat)"
  trace :: "event list"

definition init_world :: world where
  "init_world =
     \<lparr>api_key = [], profiles = JArr [], accounts = JArr [], posts_cache = JObj [],
      last_refresh = None, cache = Map.empty, trace = []\<rparr>"

definition ttl :: nat where
  "ttl = 300"

text \<open>An entry is served while the clock is below its time of storage plus the ttl.\<close>

definition fresh :: "nat \<Rightarrow> (api_result \<times> nat) option \<Rightarrow> bool" where
  "fresh now e = (case e of None \<Rightarrow> False | Some (r, ts) \<Rightarrow> now < ts + ttl)"

definition run_and_store ::
  "(http_call \<Rightarrow> http_outcome) \<Rightarrow> nat \<Rightarrow> api_args \<Rightarrow> world \<Rightarrow> api_result \<times> world" where
  "run_and_store net now a w =
     (let (r, calls) = make_api_request_body net (api_key w) a in
      (r, w\<lparr>cache := (cache w)(a \<mapsto> (r, now)),
             trace := trace w @ BodyRun a # map NetCall calls\<rparr>))"

text \<open>
  The decorated function (lines 82-83). \<open>st.cache_data\<close> keeps the value a function
  returns under the arguments of the call and serves it for \<open>ttl\<close> seconds; an exception
  would not be kept, but the body catches every exception and returns. The key is the
  tuple of all six arguments (an argument left out counts as its default); the value
  stored is whatever the body returns, at clock reading \<open>now\<close>.
\<close>

definition make_api_request ::
  "(http_call \<Rightarrow> http_outcome) \<Rightarrow> nat \<Rightarrow> api_args \<Rightarrow> world \<Rightarrow> api_result \<times> world" where
  "make_api_request net now a w =
     (let w1 = w\<lparr>trace := trace w @ [Lookup a]\<rparr> in
      case cache w a of
        None \<Rightarrow> run_and_store net now a w1
      | Some (r, ts) \<Rightarrow> if now < ts + ttl then (r, w1) else run_and_store net now a w1)"

text \<open>\<open>st.cache_data.clear()\<close>.\<close>

definition clear_cache :: "world \<Rightarrow> world" where
  "clear_cache w = w\<lparr>cache := Map.empty\<rparr>"

text \<open>Lines 199-202: a changed key is stored and the cache cleared.\<close>

definition set_api_key :: "string \<Rightarrow> world \<Rightarrow> world" where
  "set_api_key k w = (if k \<noteq> api_key w then clear_cache (w\<lparr>api_key := k\<rparr>) else w)"

text \<open>Counting events.\<close>

definition body_runs :: "world \<Rightarrow> nat" where
  "body_runs w = length (filter (\<lambda>e. case e of BodyRun _ \<Rightarrow> True | _ \<Rightarrow> False) (trace w))"

definition net_calls :: "world \<Rightarrow> http_call list" where
  "net_calls w = concat (map (\<lambda>e. case e of NetCall c \<Rightarrow> [c] | _ \<Rightarrow> []) (trace w))"

section \<open>Loaders (lines 133-160)\<close>

text \<open>
  A loader returns its pair, or raises: \<open>data.get\<close> on a truthy payload that is not a
  dict is an AttributeError, which nothing catches.
\<close>

definition load_profiles ::
  "(http_call \<Rightarrow> http_outcome) \<Rightarrow> nat \<Rightarrow> world \<Rightarrow> (py_exn + bool \<times> string option) \<times> world" where
  "load_profiles net now w =
     (let ((d, err), w1) = make_api_request net now (default_args ''/profiles'') w in
      if truthy d then
        (case dict_get d ''profiles'' (JArr []) of
           Inl x \<Rightarrow> (Inl x, w1)
         | Inr v \<Rightarrow> (Inr (True, None), w1\<lparr>profiles := v\<rparr>))
      else (Inr (False, err), w1))"

definition load_accounts ::
  "(http_call \<Rightarrow> http_outcome) \<Rightarrow> nat \<Rightarrow> world \<Rightarrow> (py_exn + bool \<times> string option) \<times> world" where
  "load_accounts net now w =
     (let ((d, err), w1) = make_api_request net now (default_args ''/accounts'') w in
      if truthy d then
        (case dict_get d ''accounts'' (JArr []) of
           Inl x \<Rightarrow> (Inl x, w1)
         | Inr v \<Rightarrow> (Inr (True, None), w1\<lparr>accounts := v\<rparr>))
      else (Inr (False, err), w1))"

definition validate_api_key ::
  "(http_call \<Rightarrow> http_outcome) \<Rightarrow> nat \<Rightarrow> world \<Rightarrow> (bool \<times> string option) \<times> world" where
  "validate_api_key net now w =
     (if api_key w = [] then ((False, Some ''No API key provided''), w)
      else
        (let ((d, err), w1) = make_api_request net now (default_args ''/profiles'') w in
         if d \<noteq> JNull then ((True, Some ''API key is valid''), w1)
         else ((False, err), w1)))"

section \<open>Page actions\<close>

text \<open>
  What an action shows (\<open>st.success\<close>, \<open>st.error\<close>; the leading emoji of a message is
  left out), and the exception that ended it, if one did.
\<close>

datatype ui_msg = UiSuccess string | UiError string

type_synonym action_result = "ui_msg list \<times> py_exn option"

text \<open>
  The Refresh Data button (\<open>main\<close>, lines 214-227). One clock reading serves the whole
  action.
\<close>

definition refresh_data ::
  "(http_call \<Rightarrow> http_outcome) \<Rightarrow> nat \<Rightarrow> world \<Rightarrow> action_result \<times> world" where
  "refresh_data net now w =
     (if api_key w \<noteq> [] then
        (case load_profiles net now w of
           (Inl x, w1) \<Rightarrow> (([], Some x), w1)
         | (Inr (profiles_success, profiles_error), w1) \<Rightarrow>
             (case load_accounts net now w1 of
                (Inl x, w2) \<Rightarrow> (([], Some x), w2)
              | (Inr (accounts_success, accounts_error), w2) \<Rightarrow>
                  if profiles_success \<and> accounts_success then
                    (([UiSuccess ''Data refreshed successfully!''], None),
                     w2\<lparr>last_refresh := Some now\<rparr>)
                  else
                    (([UiError (''Refresh failed: ''
                         @ fmt_error (py_or profiles_error accounts_error))], None), w2)))
      else (([UiError ''Please enter your API key first''], None), w))"

subsection \<open>Scheduling a post (\<open>show_posts\<close>, lines 710-807)\<close>

text \<open>The entry appended to \<open>selected_accounts\<close> for a ticked account.\<close>

record reddit_data =
  subreddit :: string
  post_type :: string
  link_url :: "string option"

record platform_data =
  platform :: string
  accountId :: string
  platformSpecificData :: "reddit_data option"

text \<open>
  The widgets of one account row (a text input left blank is the empty string); the rows
  are taken in the order in which the page shows them.
\<close>

record account_row =
  row_platform :: string
  row_id :: string
  account_selected :: bool
  subreddit_input :: string
  post_type_input :: string
  url_input :: string

text \<open>Lines 711-748: the Reddit data are attached only when a subreddit was typed.\<close>

definition platform_data_of :: "account_row \<Rightarrow> platform_data" where
  "platform_data_of r =
     \<lparr>platform = row_platform r, accountId = row_id r,
      platformSpecificData =
        (if row_platform r = ''reddit'' \<and> subreddit_input r \<noteq> [] then
           Some \<lparr>subreddit = subreddit_input r, post_type = post_type_input r,
                 link_url = (if post_type_input r = ''link'' \<and> url_input r \<noteq> []
                             then Some (url_input r) else None)\<rparr>
         else None)\<rparr>"

definition selected_accounts_of :: "account_row list \<Rightarrow> platform_data list" where
  "selected_accounts_of rows = map platform_data_of (filter account_selected rows)"

text \<open>Lines 770-776, for one entry; a missing key reads as \<open>None\<close>.\<close>

definition reddit_errors :: "platform_data \<Rightarrow> string list" where
  "reddit_errors acc =
     (if platform acc = ''reddit'' then
        (let sub = map_option subreddit (platformSpecificData acc);
             ty = map_option post_type (platformSpecificData acc);
             u = Option.bind (platformSpecificData acc) link_url
         in (if sub = None \<or> sub = Some [] then [''Subreddit is required for Reddit posts'']
             else [])
          @ (if ty = Some ''link'' \<and> (u = None \<or> u = Some [])
             then [''URL is required for Reddit link posts''] else []))
      else [])"

text \<open>Lines 763-776: the list \<open>errors\<close>.\<close>

definition validate_post :: "string \<Rightarrow> platform_data list \<Rightarrow> string list" where
  "validate_post content sel =
     (if py_strip content = [] then [''Post content is required''] else [])
     @ (if sel = [] then [''At least one platform must be selected''] else [])
     @ concat (map reddit_errors sel)"

definition platform_json :: "platform_data \<Rightarrow> json" where
  "platform_json acc =
     JObj ([(''platform'', JStr (platform acc)), (''accountId'', JStr (accountId acc))]
       @ (case platformSpecificData acc of
            None \<Rightarrow> []
          | Some rd \<Rightarrow>
              [(''platformSpecificData'',
                JObj ([(''subreddit'', JStr (subreddit rd)), (''type'', JStr (post_type rd))]
                  @ (case link_url rd of None \<Rightarrow> [] | Some u \<Rightarrow> [(''url'', JStr u)])))]))"

text \<open>
  The submitted form. \<open>scheduled_for\<close> is the ISO text of the chosen date and time when
  the post is scheduled for later, \<open>media_url\<close> the URL of an uploaded image.
\<close>

record post_form =
  content :: string
  selected_accounts :: "platform_data list"
  scheduled_for :: "string option"
  timezone :: string
  media_url :: "string option"

definition post_data :: "post_form \<Rightarrow> json" where
  "post_data f =
     JObj ([(''content'', JStr (py_strip (content f))),
            (''platforms'', JArr (map platform_json (selected_accounts f)))]
       @ (case scheduled_for f of
            None \<Rightarrow> []
          | Some at \<Rightarrow> [(''scheduledFor'', JStr at), (''timezone'', JStr (timezone f))])
       @ (case media_url f of
            None \<Rightarrow> []
          | Some u \<Rightarrow> if u = [] then []
                      else [(''mediaItems'',
                             JArr [JObj [(''type'', JStr ''image''), (''url'', JStr u)]])]))"

definition post_args :: "string \<Rightarrow> json \<Rightarrow> api_args" where
  "post_args ep d =
     \<lparr>endpoint = ep, http_method = ''POST'', data = d, params = JNull, files = None,
      use_cache = True\<rparr>"

text \<open>Lines 761-807, the Schedule Post button.\<close>

definition submit_post ::
  "(http_call \<Rightarrow> http_outcome) \<Rightarrow> nat \<Rightarrow> post_form \<Rightarrow> world \<Rightarrow> ui_msg list \<times> world" where
  "submit_post net now f w =
     (let errors = validate_post (content f) (selected_accounts f) in
      if errors \<noteq> [] then (map UiError errors, w)
      else
        (let ((result, error), w1) =
               make_api_request net now (post_args ''/posts'' (post_data f)) w in
         if truthy result then ([UiSuccess ''Post scheduled successfully!''], w1)
         else ([UiError (''Failed to schedule post: '' @ fmt_error error)], w1)))"

subsection \<open>Creating a profile (\<open>show_profiles\<close>, lines 494-514)\<close>

definition profile_data :: "string \<Rightarrow> string \<Rightarrow> string \<Rightarrow> bool \<Rightarrow> json" where
  "profile_data name description color set_default =
     JObj [(''name'', JStr (py_strip name)), (''description'', JStr (py_strip description)),
           (''color'', JStr color), (''isDefault'', JBool set_default)]"

definition create_profile ::
  "(http_call \<Rightarrow> http_outcome) \<Rightarrow> nat \<Rightarrow> string \<Rightarrow> string \<Rightarrow> string \<Rightarrow> bool \<Rightarrow> world
     \<Rightarrow> action_result \<times> world" where
  "create_profile net now name description color set_default w =
     (if py_strip name = [] then (([UiError ''Profile name is required''], None), w)
      else if length (py_strip name) < 2 then
        (([UiError ''Profile name must be at least 2 characters''], None), w)
      else
        (let ((result, error), w1) =
               make_api_request net now
                 (post_args ''/profiles'' (profile_data name description color set_default)) w
         in if truthy result then
              (let shown = [UiSuccess (''Profile '' @ [CHR 0x27] @ name @ [CHR 0x27]
                                         @ '' created successfully!'')] in
               case load_profiles net now w1 of
                 (Inl x, w2) \<Rightarrow> ((shown, Some x), w2)
               | (Inr _, w2) \<Rightarrow> ((shown, None), w2))
            else (([UiError (''Failed to create profile: '' @ fmt_error error)], None), w1)))"

subsection \<open>Uploading an image (\<open>show_posts\<close>, lines 610-620)\<close>

text \<open>\<open>v[0]\<close> and \<open>v["k"]\<close> on a decoded value.\<close>

fun py_first :: "json \<Rightarrow> py_exn + json" where
  "py_first (JArr (x # xs)) = Inr x"
| "py_first (JArr []) = Inl IndexError"
| "py_first (JStr (c # cs)) = Inr (JStr [c])"
| "py_first (JStr []) = Inl IndexError"
| "py_first (JObj kvs) = Inl KeyError"
| "py_first _ = Inl TypeError"

fun py_item :: "json \<Rightarrow> string \<Rightarrow> py_exn + json" where
  "py_item (JObj kvs) k = (case map_of kvs k of None \<Rightarrow> Inl KeyError | Some v \<Rightarrow> Inr v)"
| "py_item _ k = Inl TypeError"

definition media_args :: "string \<Rightarrow> api_args" where
  "media_args bytes =
     \<lparr>endpoint = ''/media'', http_method = ''POST'', data = JNull, params = JNull,
      files = Some [(''files'', bytes)], use_cache = True\<rparr>"

text \<open>The result is \<open>media_url\<close> (\<open>JNull\<close> when it stays \<open>None\<close>) and what is shown.\<close>

definition upload_media ::
  "(http_call \<Rightarrow> http_outcome) \<Rightarrow> nat \<Rightarrow> string \<Rightarrow> world
     \<Rightarrow> (py_exn + json \<times> ui_msg list) \<times> world" where
  "upload_media net now bytes w =
     (let ((media_response, media_error), w1) = make_api_request net now (media_args bytes) w;
          failed = (Inr (JNull, [UiError (''Failed to upload image: '' @ fmt_error media_error)]), w1)
      in if truthy media_response then
           (case dict_get media_response ''files'' JNull of
              Inl x \<Rightarrow> (Inl x, w1)
            | Inr fs \<Rightarrow>
                if truthy fs then
                  (case py_first fs of
                     Inl x \<Rightarrow> (Inl x, w1)
                   | Inr f0 \<Rightarrow>
                       (case py_item f0 ''url'' of
                          Inl x \<Rightarrow> (Inl x, w1)
                        | Inr u \<Rightarrow> (Inr (u, [UiSuccess ''Image uploaded successfully!'']), w1)))
                else failed)
         else failed)"

section \<open>Concrete inputs\<close>

text \<open>A remote side that answers every call alike, and a session with a key entered.\<close>

definition net_const :: "http_outcome \<Rightarrow> http_call \<Rightarrow> http_outcome" where
  "net_const out c = out"

definition keyed_world :: world where
  "keyed_world = init_world\<lparr>api_key := ''abc123''\<rparr>"

text \<open>The definitions a concrete run unfolds.\<close>

lemmas eval_defs =
  make_api_request_def run_and_store_def make_api_request_body_def build_call_def
  default_args_def classify_def fresh_def ttl_def net_const_def keyed_world_def init_world_def
  auth_headers_def base_url_def files_given_def body_runs_def net_calls_def

section \<open>Worlds the application can be in\<close>

text \<open>
  The steps that write the session state or the cache: entering a key (lines 199-202), a
  request through the decorated function, clearing the cache (lines 202, 987), and the
  writes of the loaders and of the refresh button.
\<close>

inductive reachable :: "world \<Rightarrow> bool" where
  start: "reachable init_world"
| key: "reachable w \<Longrightarrow> reachable (set_api_key k w)"
| request: "reachable w \<Longrightarrow> reachable (snd (make_api_request net now a w))"
| clear: "reachable w \<Longrightarrow> reachable (clear_cache w)"
| profiles_written: "reachable w \<Longrightarrow> reachable (w\<lparr>profiles := v\<rparr>)"
| accounts_written: "reachable w \<Longrightarrow> reachable (w\<lparr>accounts := v\<rparr>)"
| refreshed: "reachable w \<Longrightarrow> reachable (w\<lparr>last_refresh := t\<rparr>)"

text \<open>
  The request signature of the specification: endpoint path, method, query parameters and
  body. The decorator's key has two more components, \<open>files\<close> and \<open>use_cache\<close>.
\<close>

definition request_signature :: "api_args \<Rightarrow> string \<times> string \<times> json \<times> json" where
  "request_signature a = (endpoint a, http_method a, params a, data a)"

text \<open>A remote side that answers by URL.\<close>

definition net_by_url ::
  "(string \<times> http_outcome) list \<Rightarrow> http_outcome \<Rightarrow> http_call \<Rightarrow> http_outcome" where
  "net_by_url tbl dflt c = (case map_of tbl (url c) of None \<Rightarrow> dflt | Some out \<Rightarrow> out)"

text \<open>
  A session with lists loaded earlier, and the reply of the specification's example for
  \<open>/accounts\<close>.
\<close>

definition loaded_world :: world where
  "loaded_world =
     keyed_world\<lparr>profiles := JArr [JObj [(''_id'', JStr ''p1''), (''name'', JStr ''Main'')]],
                  accounts := JArr [JObj [(''_id'', JStr ''0''), (''platform'', JStr ''twitter'')]]\<rparr>"

definition accounts_reply :: json where
  "accounts_reply =
     JObj [(''accounts'',
            JArr [JObj [(''_id'', JStr ''1''), (''platform'', JStr ''reddit''),
                        (''username'', JStr ''bob''), (''isActive'', JBool True)]])]"

text \<open>More definitions a concrete run unfolds.\<close>

lemmas loader_defs =
  load_profiles_def load_accounts_def validate_api_key_def refresh_data_def py_or_def
  fmt_error_def error_detail_def py_str_def show_nat.simps digit_char_def net_by_url_def
  loaded_world_def accounts_reply_def

text \<open>A remote side that rejects the key on \<open>/profiles\<close> and fails on everything else.\<close>

definition failing_net :: "http_call \<Rightarrow> http_outcome" where
  "failing_net =
     net_by_url [(''https://getlate.dev/api/v1/profiles'', Response 401 (Inl ''no JSON'') [])]
       (Response 500 (Inl ''no JSON'') [])"

text \<open>
  Two submitted forms: one left blank, one with a Reddit account ticked, a subreddit typed,
  the post type \<open>link\<close> chosen and the URL left blank.
\<close>

definition blank_form :: post_form where
  "blank_form =
     \<lparr>content = [], selected_accounts = [], scheduled_for = None,
      timezone = ''America/New_York'', media_url = None\<rparr>"

definition link_row :: account_row where
  "link_row =
     \<lparr>row_platform = ''reddit'', row_id = ''1'', account_selected = True,
      subreddit_input = ''programming'', post_type_input = ''link'', url_input = []\<rparr>"

definition link_form :: post_form where
  "link_form =
     \<lparr>content = ''Hello'', selected_accounts = selected_accounts_of [link_row],
      scheduled_for = None, timezone = ''America/New_York'', media_url = None\<rparr>"

text \<open>The definitions a concrete submission unfolds.\<close>

lemmas form_defs =
  submit_post_def validate_post_def reddit_errors_def py_strip_def py_isspace_def
  selected_accounts_of_def platform_data_of_def blank_form_def link_row_def link_form_def
  post_data_def platform_json_def post_args_def

text \<open>A form that passes validation, and the reply to a successful creation.\<close>

definition text_form :: post_form where
  "text_form =
     \<lparr>content = ''Hello'',
      selected_accounts = [\<lparr>platform = ''twitter'', accountId = ''0'', platformSpecificData = None\<rparr>],
      scheduled_for = None, timezone = ''America/New_York'', media_url = None\<rparr>"

definition created_reply :: http_outcome where
  "created_reply = Response 201 (Inr (JObj [(''_id'', JStr ''42'')])) []"

lemmas mutation_defs = form_defs text_form_def created_reply_def media_args_def

section \<open>What a posting operation does with the pair it gets back\<close>

text \<open>
  The part of each operation after the request: lines 802-807 for a post, lines 614-620
  for an upload, lines 509-515 for a profile (which loads the profiles again on success).
\<close>

definition post_shown :: "api_result \<Rightarrow> ui_msg list" where
  "post_shown r =
     (if truthy (fst r) then [UiSuccess ''Post scheduled successfully!'']
      else [UiError (''Failed to schedule post: '' @ fmt_error (snd r))])"

definition media_outcome :: "api_result \<Rightarrow> py_exn + json \<times> ui_msg list" where
  "media_outcome r =
     (let failed = Inr (JNull, [UiError (''Failed to upload image: '' @ fmt_error (snd r))])
      in if truthy (fst r) then
           (case dict_get (fst r) ''files'' JNull of
              Inl x \<Rightarrow> Inl x
            | Inr fs \<Rightarrow>
                if truthy fs then
                  (case py_first fs of
                     Inl x \<Rightarrow> Inl x
                   | Inr f0 \<Rightarrow>
                       (case py_item f0 ''url'' of
                          Inl x \<Rightarrow> Inl x
                        | Inr u \<Rightarrow> Inr (u, [UiSuccess ''Image uploaded successfully!''])))
                else failed)
         else failed)"

definition after_create ::
  "(http_call \<Rightarrow> http_outcome) \<Rightarrow> nat \<Rightarrow> string \<Rightarrow> api_result \<Rightarrow> world
     \<Rightarrow> action_result \<times> world" where
  "after_create net now name r w1 =
     (if truthy (fst r) then
        (let shown = [UiSuccess (''Profile '' @ [CHR 0x27] @ name @ [CHR 0x27]
                                   @ '' created successfully!'')] in
         case load_profiles net now w1 of
           (Inl x, w2) \<Rightarrow> ((shown, Some x), w2)
         | (Inr _, w2) \<Rightarrow> ((shown, None), w2))
      else (([UiError (''Failed to create profile: '' @ fmt_error (snd r))], None), w1))"

section \<open>The cache decorator: hits and misses\<close>

lemma make_api_request_hit:
  "fresh now (cache w a) \<Longrightarrow>
   make_api_request net now a w = (fst (the (cache w a)), w\<lparr>trace := trace w @ [Lookup a]\<rparr>)"
  by (auto simp: make_api_request_def fresh_def split: option.splits)

lemma make_api_request_miss:
  "\<not> fresh now (cache w a) \<Longrightarrow>
   make_api_request net now a w =
     (fst (make_api_request_body net (api_key w) a),
      w\<lparr>cache := (cache w)(a \<mapsto> (fst (make_api_request_body net (api_key w) a), now)),
        trace := trace w @ Lookup a # BodyRun a
                   # map NetCall (snd (make_api_request_body net (api_key w) a))\<rparr>)"
  by (auto simp: make_api_request_def run_and_store_def fresh_def split: prod.splits option.splits)

lemma make_api_request_session:
  "make_api_request net now a w = (r, w') \<Longrightarrow>
   api_key w' = api_key w \<and> profiles w' = profiles w \<and> accounts w' = accounts w
   \<and> posts_cache w' = posts_cache w \<and> last_refresh w' = last_refresh w"
  by (cases "fresh now (cache w a)") (auto simp: make_api_request_hit make_api_request_miss)

lemma body_runs_hit:
  "fresh now (cache w a) \<Longrightarrow> body_runs (snd (make_api_request net now a w)) = body_runs w"
  by (simp add: make_api_request_hit body_runs_def)

lemma body_runs_miss:
  "\<not> fresh now (cache w a) \<Longrightarrow>
   body_runs (snd (make_api_request net now a w)) = Suc (body_runs w)"
  by (simp add: make_api_request_miss body_runs_def)

lemma net_calls_hit:
  "fresh now (cache w a) \<Longrightarrow> net_calls (snd (make_api_request net now a w)) = net_calls w"
  by (simp add: make_api_request_hit net_calls_def)

lemma concat_NetCall:
  "concat (map (case_event (\<lambda>x. []) (\<lambda>x. []) (\<lambda>c. [c]) \<circ> NetCall) cs) = cs"
  by (induction cs) simp_all

lemma net_calls_miss:
  "\<not> fresh now (cache w a) \<Longrightarrow>
   net_calls (snd (make_api_request net now a w))
     = net_calls w @ snd (make_api_request_body net (api_key w) a)"
  by (simp add: make_api_request_miss net_calls_def concat_NetCall)

lemma cache_after_miss:
  "\<not> fresh now (cache w a) \<Longrightarrow>
   cache (snd (make_api_request net now a w)) a
     = Some (fst (make_api_request_body net (api_key w) a), now)"
  by (simp add: make_api_request_miss)

lemma cache_after_hit:
  "fresh now (cache w a) \<Longrightarrow> cache (snd (make_api_request net now a w)) = cache w"
  by (simp add: make_api_request_hit)

lemma cache_after_other_request:
  "a \<noteq> b \<Longrightarrow> cache (snd (make_api_request net now b w)) a = cache w a"
  by (cases "fresh now (cache w b)") (simp_all add: make_api_request_hit make_api_request_miss)

section \<open>Claims\<close>

text \<open>
  Claim C1, as the code has it: a failing call is not kept out of the cache. When no fresh
  entry exists and the body returns an error pair, that pair is returned to the caller and
  stored under the arguments at the current clock reading; every identical call while the
  clock is below that reading plus 300 gets the stored error back, without running the
  body and without a network call, whatever the remote side would answer now.
\<close>

theorem failure_is_cached:
  assumes miss: "\<not> fresh now (cache w a)"
    and fail: "fst (make_api_request_body net (api_key w) a) = (d, Some msg)"
  shows "fst (make_api_request net now a w) = (d, Some msg)
       \<and> cache (snd (make_api_request net now a w)) a = Some ((d, Some msg), now)
       \<and> (\<forall>net' now'. now' < now + ttl \<longrightarrow>
            fst (make_api_request net' now' a (snd (make_api_request net now a w))) = (d, Some msg)
          \<and> body_runs (snd (make_api_request net' now' a (snd (make_api_request net now a w))))
              = body_runs (snd (make_api_request net now a w))
          \<and> net_calls (snd (make_api_request net' now' a (snd (make_api_request net now a w))))
              = net_calls (snd (make_api_request net now a w)))"
proof -
  let ?w1 = "snd (make_api_request net now a w)"
  have r: "fst (make_api_request net now a w) = (d, Some msg)"
    using miss fail by (simp add: make_api_request_miss)
  have c: "cache ?w1 a = Some ((d, Some msg), now)"
    using miss fail by (simp add: cache_after_miss)
  have later: "fst (make_api_request net' now' a ?w1) = (d, Some msg)
      \<and> body_runs (snd (make_api_request net' now' a ?w1)) = body_runs ?w1
      \<and> net_calls (snd (make_api_request net' now' a ?w1)) = net_calls ?w1"
    if "now' < now + ttl" for net' now'
  proof -
    from that c have f: "fresh now' (cache ?w1 a)" by (simp add: fresh_def)
    have "fst (make_api_request net' now' a ?w1) = (d, Some msg)"
      using f c by (simp add: make_api_request_hit)
    with body_runs_hit [OF f] net_calls_hit [OF f] show ?thesis by simp
  qed
  show ?thesis using r c later by blast
qed

theorem failure_is_cached_witness:
  "\<not> fresh 0 (cache keyed_world (default_args ''/profiles''))
   \<and> fst (make_api_request_body (net_const TimeoutExc) (api_key keyed_world)
            (default_args ''/profiles''))
       = (JNull, Some ''Request timed out. Please try again'')
   \<and> fst (make_api_request (net_const (Response 200 (Inr (JObj [(''profiles'', JArr [])])) []))
            299 (default_args ''/profiles'')
            (snd (make_api_request (net_const TimeoutExc) 0 (default_args ''/profiles'')
                    keyed_world)))
       = (JNull, Some ''Request timed out. Please try again'')"
proof -
  have m: "\<not> fresh 0 (cache keyed_world (default_args ''/profiles''))"
    by (simp add: fresh_def keyed_world_def init_world_def)
  have f: "fst (make_api_request_body (net_const TimeoutExc) (api_key keyed_world)
                 (default_args ''/profiles''))
           = (JNull, Some ''Request timed out. Please try again'')"
    by (simp add: eval_defs)
  show ?thesis
    using m f failure_is_cached [OF m f] by (simp add: ttl_def)
qed

text \<open>
  As stated (nothing stored on failure, the next identical call goes to the network) C1
  fails: after a timed-out request for \<open>/profiles\<close> at clock 0 the error pair sits in the
  cache, and the same request at clock 10 leaves the number of body runs at one.
\<close>

theorem failure_not_cached_counterexample:
  "cache (snd (make_api_request (net_const TimeoutExc) 0 (default_args ''/profiles'') keyed_world))
     (default_args ''/profiles'')
     = Some ((JNull, Some ''Request timed out. Please try again''), 0)
   \<and> body_runs (snd (make_api_request (net_const TimeoutExc) 10 (default_args ''/profiles'')
        (snd (make_api_request (net_const TimeoutExc) 0 (default_args ''/profiles'')
                keyed_world)))) = 1"
  by (simp add: eval_defs)

subsection \<open>The body with and without a key\<close>

lemma body_without_key:
  "make_api_request_body net [] a = ((JNull, Some ''API key not provided''), [])"
  by (simp add: make_api_request_body_def)

lemma body_with_call:
  "key \<noteq> [] \<Longrightarrow> build_call key a = Some c \<Longrightarrow>
   make_api_request_body net key a = (classify (net c), [c])"
  by (simp add: make_api_request_body_def)

lemma cache_without_key:
  "reachable w \<Longrightarrow> api_key w = [] \<Longrightarrow> cache w a = Some (r, ts) \<Longrightarrow>
   r = (JNull, Some ''API key not provided'')"
proof (induction arbitrary: a r ts rule: reachable.induct)
  case start
  then show ?case by (simp add: init_world_def)
next
  case (key w k)
  then show ?case by (auto simp: set_api_key_def clear_cache_def split: if_splits)
next
  case (request w net now b)
  show ?case
  proof (cases "fresh now (cache w b)")
    case True
    with request show ?thesis by (simp add: make_api_request_hit)
  next
    case False
    with request show ?thesis
      by (auto simp: make_api_request_miss body_without_key split: if_splits)
  qed
next
  case (clear w)
  then show ?case by (simp add: clear_cache_def)
qed auto

text \<open>
  Claim C7: with an empty key the body of \<open>make_api_request\<close> returns the error
  \<open>API key not provided\<close> and makes no network call, for every request; a call through the
  decorator adds no network call either, and in every world the application can reach it
  returns that same error (the cache, cleared whenever the key changes, holds nothing else
  while the key is empty).
\<close>

theorem no_key_no_network:
  assumes "api_key w = []"
  shows "make_api_request_body net (api_key w) a = ((JNull, Some ''API key not provided''), [])
       \<and> net_calls (snd (make_api_request net now a w)) = net_calls w
       \<and> (reachable w \<longrightarrow>
            fst (make_api_request net now a w) = (JNull, Some ''API key not provided''))"
proof (cases "fresh now (cache w a)")
  case True
  then obtain r ts where c: "cache w a = Some (r, ts)"
    by (auto simp: fresh_def split: option.splits)
  have "reachable w \<longrightarrow> r = (JNull, Some ''API key not provided'')"
    using cache_without_key [OF _ assms c] by blast
  moreover have "fst (make_api_request net now a w) = r"
    using make_api_request_hit [OF True, of net] c by simp
  ultimately show ?thesis
    using assms net_calls_hit [OF True, of net] by (simp add: body_without_key)
next
  case False
  then show ?thesis
    using assms net_calls_miss [OF False, of net]
    by (simp add: make_api_request_miss body_without_key)
qed

theorem no_key_no_network_witness:
  "api_key (set_api_key [] (snd (make_api_request
       (net_const (Response 200 (Inr (JObj [(''profiles'', JArr [])])) [])) 0
       (default_args ''/profiles'') (set_api_key ''abc123'' init_world)))) = []
   \<and> reachable (set_api_key [] (snd (make_api_request
       (net_const (Response 200 (Inr (JObj [(''profiles'', JArr [])])) [])) 0
       (default_args ''/profiles'') (set_api_key ''abc123'' init_world))))
   \<and> fst (make_api_request
       (net_const (Response 200 (Inr (JObj [(''profiles'', JArr [])])) [])) 5
       (default_args ''/profiles'')
       (set_api_key [] (snd (make_api_request
         (net_const (Response 200 (Inr (JObj [(''profiles'', JArr [])])) [])) 0
         (default_args ''/profiles'') (set_api_key ''abc123'' init_world)))))
     = (JNull, Some ''API key not provided'')"
proof -
  let ?net = "net_const (Response 200 (Inr (JObj [(''profiles'', JArr [])])) [])"
  let ?w = "set_api_key [] (snd (make_api_request ?net 0 (default_args ''/profiles'')
              (set_api_key ''abc123'' init_world)))"
  have k: "api_key ?w = []"
    by (simp add: set_api_key_def clear_cache_def)
  have r: "reachable ?w"
    by (intro reachable.intros)
  from no_key_no_network [OF k, of ?net "default_args ''/profiles''" 5] r
  have "fst (make_api_request ?net 5 (default_args ''/profiles'') ?w)
          = (JNull, Some ''API key not provided'')"
    by blast
  with k r show ?thesis by simp
qed

subsection \<open>The entry a request leaves behind\<close>

lemma entry_after_request:
  "make_api_request net t a w = (r, w1) \<Longrightarrow>
   \<exists>ts. cache w1 a = Some (r, ts) \<and> (\<not> fresh t (cache w a) \<longrightarrow> ts = t)
        \<and> (fresh t (cache w a) \<longrightarrow> t < ts + ttl)"
proof (cases "fresh t (cache w a)")
  case True
  assume "make_api_request net t a w = (r, w1)"
  with True show ?thesis
    by (auto simp: make_api_request_hit fresh_def split: option.splits)
next
  case False
  assume "make_api_request net t a w = (r, w1)"
  with False show ?thesis
    by (auto simp: make_api_request_miss)
qed

text \<open>
  Claim C3, as the code has it: the key of the cache is the whole argument tuple, so two
  calls must agree on the file payload and on \<open>use_cache\<close> as well as on the signature.
  Take two such calls, the entry of the first neither cleared nor replaced before the
  second (other requests may come between them). After the first call the cache holds its
  result with a capture time \<open>ts\<close>, which is the time of the first call when that call
  went to the body, and the body ran at most once for it. If the second call comes before
  \<open>ts + 300\<close>, its result equals the first's, the body is not run for it and no network
  call is added. If it comes at \<open>ts + 300\<close> or later, the body runs again, its result is
  the second call's result, and with a key and a known method the call goes to the
  network.
\<close>

theorem same_arguments_within_window:
  assumes sig: "request_signature a2 = request_signature a1"
    and rest: "files a2 = files a1" "use_cache a2 = use_cache a1"
    and first: "make_api_request net1 t1 a1 w = (r1, w1)"
    and kept: "cache v a1 = cache w1 a1"
    and second: "make_api_request net2 t2 a2 v = (r2, w2)"
  shows "\<exists>ts. cache w1 a1 = Some (r1, ts)
           \<and> (\<not> fresh t1 (cache w a1) \<longrightarrow> ts = t1)
           \<and> body_runs w1 \<le> body_runs w + 1
           \<and> (t2 < ts + 300 \<longrightarrow>
                 r2 = r1 \<and> body_runs w2 = body_runs v \<and> net_calls w2 = net_calls v)
           \<and> (ts + 300 \<le> t2 \<longrightarrow>
                 body_runs w2 = body_runs v + 1
                 \<and> r2 = fst (make_api_request_body net2 (api_key v) a2)
                 \<and> (\<forall>c. api_key v \<noteq> [] \<and> build_call (api_key v) a2 = Some c
                        \<longrightarrow> net_calls w2 = net_calls v @ [c]))"
proof -
  have eq: "a2 = a1"
    using sig rest by (simp add: request_signature_def)
  from entry_after_request [OF first] obtain ts where
    c: "cache w1 a1 = Some (r1, ts)" and m: "\<not> fresh t1 (cache w a1) \<longrightarrow> ts = t1"
    by blast
  from c kept have cv: "cache v a1 = Some (r1, ts)" by simp
  have runs1: "body_runs w1 \<le> body_runs w + 1"
    using first body_runs_hit [of t1 w a1 net1] body_runs_miss [of t1 w a1 net1]
    by (cases "fresh t1 (cache w a1)") auto
  have hit: "r2 = r1 \<and> body_runs w2 = body_runs v \<and> net_calls w2 = net_calls v"
    if "t2 < ts + 300"
  proof -
    from that cv have f: "fresh t2 (cache v a1)" by (simp add: fresh_def ttl_def)
    have "r2 = r1"
      using make_api_request_hit [OF f, of net2] second cv eq by simp
    moreover have "body_runs w2 = body_runs v" "net_calls w2 = net_calls v"
      using body_runs_hit [OF f, of net2] net_calls_hit [OF f, of net2] second eq by simp_all
    ultimately show ?thesis by simp
  qed
  have miss: "body_runs w2 = body_runs v + 1
              \<and> r2 = fst (make_api_request_body net2 (api_key v) a2)
              \<and> (\<forall>c. api_key v \<noteq> [] \<and> build_call (api_key v) a2 = Some c
                     \<longrightarrow> net_calls w2 = net_calls v @ [c])" if "ts + 300 \<le> t2"
  proof -
    from that cv have f: "\<not> fresh t2 (cache v a1)" by (simp add: fresh_def ttl_def)
    have "r2 = fst (make_api_request_body net2 (api_key v) a2)"
      using make_api_request_miss [OF f, of net2] second eq by simp
    moreover have "body_runs w2 = body_runs v + 1"
      using body_runs_miss [OF f, of net2] second eq by simp
    moreover have "net_calls w2 = net_calls v @ [c]"
      if "api_key v \<noteq> []" "build_call (api_key v) a2 = Some c" for c
      using net_calls_miss [OF f, of net2] second eq body_with_call [OF that, of net2] by simp
    ultimately show ?thesis by blast
  qed
  show ?thesis using c m runs1 hit miss by blast
qed

theorem same_arguments_within_window_witness:
  "fst (make_api_request (net_const TimeoutExc) 299 (default_args ''/profiles'')
          (snd (make_api_request (net_const TimeoutExc) 100 (default_args ''/accounts'')
             (snd (make_api_request
                  (net_const (Response 200 (Inr (JObj [(''profiles'', JArr [])])) []))
                  0 (default_args ''/profiles'') keyed_world)))))
     = (JObj [(''profiles'', JArr [])], None)
   \<and> body_runs (snd (make_api_request (net_const TimeoutExc) 299 (default_args ''/profiles'')
          (snd (make_api_request (net_const TimeoutExc) 100 (default_args ''/accounts'')
             (snd (make_api_request
                  (net_const (Response 200 (Inr (JObj [(''profiles'', JArr [])])) []))
                  0 (default_args ''/profiles'') keyed_world)))))) = 2
   \<and> body_runs (snd (make_api_request (net_const TimeoutExc) 300 (default_args ''/profiles'')
          (snd (make_api_request (net_const TimeoutExc) 100 (default_args ''/accounts'')
             (snd (make_api_request
                  (net_const (Response 200 (Inr (JObj [(''profiles'', JArr [])])) []))
                  0 (default_args ''/profiles'') keyed_world)))))) = 3"
proof -
  let ?A = "default_args ''/profiles''"
  let ?B = "default_args ''/accounts''"
  let ?N = "net_const (Response 200 (Inr (JObj [(''profiles'', JArr [])])) [])"
  let ?T = "net_const TimeoutExc"
  let ?w1 = "snd (make_api_request ?N 0 ?A keyed_world)"
  let ?v = "snd (make_api_request ?T 100 ?B ?w1)"
  have first: "make_api_request ?N 0 ?A keyed_world = ((JObj [(''profiles'', JArr [])], None), ?w1)"
    by (simp add: eval_defs)
  have miss: "\<not> fresh 0 (cache keyed_world ?A)"
    by (simp add: fresh_def keyed_world_def init_world_def)
  have ne: "?A \<noteq> ?B"
    by (simp add: default_args_def)
  have kept: "cache ?v ?A = cache ?w1 ?A"
    using cache_after_other_request [OF ne, of ?T 100 ?w1] .
  have runs: "body_runs ?v = 2"
    by (simp add: eval_defs)
  have inside: "make_api_request ?T 299 ?A ?v
                  = (fst (make_api_request ?T 299 ?A ?v), snd (make_api_request ?T 299 ?A ?v))"
    by simp
  have after: "make_api_request ?T 300 ?A ?v
                  = (fst (make_api_request ?T 300 ?A ?v), snd (make_api_request ?T 300 ?A ?v))"
    by simp
  from same_arguments_within_window [OF refl refl refl first kept inside] miss runs
  have a: "fst (make_api_request ?T 299 ?A ?v) = (JObj [(''profiles'', JArr [])], None)
           \<and> body_runs (snd (make_api_request ?T 299 ?A ?v)) = 2"
    by auto
  from same_arguments_within_window [OF refl refl refl first kept after] miss runs
  have b: "body_runs (snd (make_api_request ?T 300 ?A ?v)) = 3"
    by auto
  from a b show ?thesis by simp
qed

text \<open>
  For the signature alone C3 fails: two uploads of different files have the same endpoint,
  method, query parameters and body, and the second, five seconds after the first, goes
  to the network and returns its own result.
\<close>

theorem same_signature_counterexample:
  "request_signature (media_args ''BBB'') = request_signature (media_args ''AAA'')
   \<and> fst (make_api_request (net_const (Response 200 (Inr (JObj [(''files'', JArr [])])) []))
            0 (media_args ''AAA'') keyed_world)
       = (JObj [(''files'', JArr [])], None)
   \<and> fst (make_api_request (net_const TimeoutExc) 5 (media_args ''BBB'')
            (snd (make_api_request
                    (net_const (Response 200 (Inr (JObj [(''files'', JArr [])])) []))
                    0 (media_args ''AAA'') keyed_world)))
       = (JNull, Some ''Request timed out. Please try again'')
   \<and> length (net_calls (snd (make_api_request (net_const TimeoutExc) 5 (media_args ''BBB'')
            (snd (make_api_request
                    (net_const (Response 200 (Inr (JObj [(''files'', JArr [])])) []))
                    0 (media_args ''AAA'') keyed_world))))) = 2"
  by (simp add: eval_defs request_signature_def media_args_def)

subsection \<open>Which outcome gives which message\<close>

lemma classify_401:
  "snd (classify out) = Some ''Unauthorized: Please check your API key''
     \<longleftrightarrow> (\<exists>b t. out = Response 401 b t)"
  by (cases out) (auto simp: classify_def split: sum.splits)

lemma classify_429:
  "snd (classify out) = Some ''Rate limit exceeded. Please try again later''
     \<longleftrightarrow> (\<exists>b t. out = Response 429 b t)"
  by (cases out) (auto simp: classify_def split: sum.splits)

lemma classify_500:
  "snd (classify out) = Some ''Server error. Please try again later''
     \<longleftrightarrow> (\<exists>b t. out = Response 500 b t)"
  by (cases out) (auto simp: classify_def split: sum.splits)

lemma classify_timeout:
  "snd (classify out) = Some ''Request timed out. Please try again'' \<longleftrightarrow> out = TimeoutExc"
  by (cases out) (auto simp: classify_def split: sum.splits)

text \<open>
  Claim C4, as the code has it: an error is a message string and nothing else. For every
  request that reaches the network (a key is set, the method is one of the four), the
  error is the fixed text \<open>Unauthorized: Please check your API key\<close> exactly when the
  response has status 401, \<open>Rate limit exceeded. Please try again later\<close> exactly for 429,
  \<open>Server error. Please try again later\<close> exactly for 500, and
  \<open>Request timed out. Please try again\<close> exactly for a timeout; the data slot of an error
  is \<open>None\<close>. So the four outcomes are told apart, and told from every other outcome, by
  their message text.
\<close>

theorem status_errors_are_messages:
  assumes k: "key \<noteq> []" and call: "build_call key a = Some c"
  shows "(snd (fst (make_api_request_body net key a))
            = Some ''Unauthorized: Please check your API key''
          \<longleftrightarrow> (\<exists>b t. net c = Response 401 b t))
       \<and> (snd (fst (make_api_request_body net key a))
            = Some ''Rate limit exceeded. Please try again later''
          \<longleftrightarrow> (\<exists>b t. net c = Response 429 b t))
       \<and> (snd (fst (make_api_request_body net key a))
            = Some ''Server error. Please try again later''
          \<longleftrightarrow> (\<exists>b t. net c = Response 500 b t))
       \<and> (snd (fst (make_api_request_body net key a))
            = Some ''Request timed out. Please try again''
          \<longleftrightarrow> net c = TimeoutExc)
       \<and> (snd (fst (make_api_request_body net key a)) \<noteq> None
          \<longrightarrow> fst (fst (make_api_request_body net key a)) = JNull)"
proof -
  have b: "fst (make_api_request_body net key a) = classify (net c)"
    using body_with_call [OF k call, of net] by simp
  have d: "snd (classify out) \<noteq> None \<longrightarrow> fst (classify out) = JNull" for out
    by (cases out) (auto simp: classify_def split: sum.splits)
  show ?thesis
    unfolding b using classify_401 classify_429 classify_500 classify_timeout d by blast
qed

theorem status_errors_are_messages_witness:
  "''abc123'' \<noteq> []
   \<and> build_call ''abc123'' (default_args ''/accounts'')
       = Some \<lparr>verb = ''GET'', url = ''https://getlate.dev/api/v1/accounts'',
               headers = [(''Authorization'', ''Bearer abc123''),
                          (''Content-Type'', ''application/json'')],
               query = JNull, json_body = JNull, multipart = None, timeout = 30\<rparr>
   \<and> snd (fst (make_api_request_body (net_const (Response 429 (Inl ''no JSON'') []))
                 ''abc123'' (default_args ''/accounts'')))
       = Some ''Rate limit exceeded. Please try again later''"
proof -
  have k: "''abc123'' \<noteq> []" by simp
  have c: "build_call ''abc123'' (default_args ''/accounts'')
       = Some \<lparr>verb = ''GET'', url = ''https://getlate.dev/api/v1/accounts'',
               headers = [(''Authorization'', ''Bearer abc123''),
                          (''Content-Type'', ''application/json'')],
               query = JNull, json_body = JNull, multipart = None, timeout = 30\<rparr>"
    by (simp add: build_call_def default_args_def base_url_def auth_headers_def)
  from status_errors_are_messages [OF k c, of "net_const (Response 429 (Inl ''no JSON'') [])"]
  show ?thesis using k c by (simp add: net_const_def)
qed

text \<open>
  As stated (a typed error value, distinguishable by kind and not just by message text) C4
  fails: what the client returns for a 401 on \<open>/profiles\<close> is the pair of \<open>None\<close> and the
  message string.
\<close>

theorem typed_error_counterexample:
  "make_api_request_body (net_const (Response 401 (Inl ''no JSON'') [])) ''abc123''
     (default_args ''/profiles'')
   = ((JNull, Some ''Unauthorized: Please check your API key''),
      [\<lparr>verb = ''GET'', url = ''https://getlate.dev/api/v1/profiles'',
        headers = [(''Authorization'', ''Bearer abc123''),
                   (''Content-Type'', ''application/json'')],
        query = JNull, json_body = JNull, multipart = None, timeout = 30\<rparr>])"
  by (simp add: eval_defs)

section \<open>Claims on the loaders\<close>

lemma load_profiles_eq:
  "make_api_request net now (default_args ''/profiles'') w = ((d, err), w1) \<Longrightarrow>
   load_profiles net now w =
     (if truthy d then
        (case dict_get d ''profiles'' (JArr []) of
           Inl x \<Rightarrow> (Inl x, w1)
         | Inr v \<Rightarrow> (Inr (True, None), w1\<lparr>profiles := v\<rparr>))
      else (Inr (False, err), w1))"
  by (simp add: load_profiles_def)

lemma load_accounts_eq:
  "make_api_request net now (default_args ''/accounts'') w = ((d, err), w1) \<Longrightarrow>
   load_accounts net now w =
     (if truthy d then
        (case dict_get d ''accounts'' (JArr []) of
           Inl x \<Rightarrow> (Inl x, w1)
         | Inr v \<Rightarrow> (Inr (True, None), w1\<lparr>accounts := v\<rparr>))
      else (Inr (False, err), w1))"
  by (simp add: load_accounts_def)

lemma dict_get_Inr:
  "dict_get d k dflt = Inr v \<Longrightarrow>
   \<exists>kvs. d = JObj kvs \<and> v = (case map_of kvs k of None \<Rightarrow> dflt | Some x \<Rightarrow> x)"
  by (cases d) auto

text \<open>
  Claim C9: a call of \<open>load_profiles\<close> that reports success has replaced the profile list
  by the \<open>profiles\<close> entry of the payload (the empty list when the payload has none); every
  other outcome, a reported failure or an exception, leaves the profile list as it was. In
  both cases the account list, the key and the time of the last refresh are untouched.
  \<open>load_accounts\<close> does the same for the account list.
\<close>

theorem loader_replaces_or_keeps:
  assumes p: "load_profiles net now w = (r, w')"
    and a: "load_accounts net2 now2 v = (q, v')"
  shows "(r = Inr (True, None) \<longrightarrow>
            (\<exists>kvs. fst (fst (make_api_request net now (default_args ''/profiles'') w)) = JObj kvs
                  \<and> profiles w' = (case map_of kvs ''profiles'' of None \<Rightarrow> JArr [] | Some x \<Rightarrow> x)))
       \<and> (r \<noteq> Inr (True, None) \<longrightarrow> profiles w' = profiles w)
       \<and> accounts w' = accounts w \<and> api_key w' = api_key w \<and> last_refresh w' = last_refresh w
       \<and> (q = Inr (True, None) \<longrightarrow>
            (\<exists>kvs. fst (fst (make_api_request net2 now2 (default_args ''/accounts'') v)) = JObj kvs
                  \<and> accounts v' = (case map_of kvs ''accounts'' of None \<Rightarrow> JArr [] | Some x \<Rightarrow> x)))
       \<and> (q \<noteq> Inr (True, None) \<longrightarrow> accounts v' = accounts v)
       \<and> profiles v' = profiles v \<and> api_key v' = api_key v \<and> last_refresh v' = last_refresh v"
proof -
  obtain d err w1 where m: "make_api_request net now (default_args ''/profiles'') w = ((d, err), w1)"
    by (metis surj_pair)
  note s = make_api_request_session [OF m]
  have P: "(r = Inr (True, None) \<longrightarrow>
            (\<exists>kvs. d = JObj kvs
                  \<and> profiles w' = (case map_of kvs ''profiles'' of None \<Rightarrow> JArr [] | Some x \<Rightarrow> x)))
       \<and> (r \<noteq> Inr (True, None) \<longrightarrow> profiles w' = profiles w)
       \<and> accounts w' = accounts w \<and> api_key w' = api_key w \<and> last_refresh w' = last_refresh w"
    using p s unfolding load_profiles_eq [OF m]
    by (auto split: if_splits sum.splits dest: dict_get_Inr)
  obtain e err2 v1 where n: "make_api_request net2 now2 (default_args ''/accounts'') v = ((e, err2), v1)"
    by (metis surj_pair)
  note t = make_api_request_session [OF n]
  have Q: "(q = Inr (True, None) \<longrightarrow>
            (\<exists>kvs. e = JObj kvs
                  \<and> accounts v' = (case map_of kvs ''accounts'' of None \<Rightarrow> JArr [] | Some x \<Rightarrow> x)))
       \<and> (q \<noteq> Inr (True, None) \<longrightarrow> accounts v' = accounts v)
       \<and> profiles v' = profiles v \<and> api_key v' = api_key v \<and> last_refresh v' = last_refresh v"
    using a t unfolding load_accounts_eq [OF n]
    by (auto split: if_splits sum.splits dest: dict_get_Inr)
  show ?thesis using P Q by (simp add: m n)
qed

theorem loader_replaces_or_keeps_witness:
  "fst (load_profiles (net_const TimeoutExc) 0 loaded_world)
     = Inr (False, Some ''Request timed out. Please try again'')
   \<and> profiles (snd (load_profiles (net_const TimeoutExc) 0 loaded_world))
     = JArr [JObj [(''_id'', JStr ''p1''), (''name'', JStr ''Main'')]]
   \<and> fst (load_accounts (net_const (Response 200 (Inr accounts_reply) [])) 0 loaded_world)
     = Inr (True, None)
   \<and> accounts (snd (load_accounts (net_const (Response 200 (Inr accounts_reply) [])) 0
                      loaded_world))
     = JArr [JObj [(''_id'', JStr ''1''), (''platform'', JStr ''reddit''),
                   (''username'', JStr ''bob''), (''isActive'', JBool True)]]"
proof -
  let ?N = "net_const (Response 200 (Inr accounts_reply) [])"
  have p: "fst (load_profiles (net_const TimeoutExc) 0 loaded_world)
             = Inr (False, Some ''Request timed out. Please try again'')"
    by (simp add: eval_defs loader_defs)
  have q: "fst (load_accounts ?N 0 loaded_world) = Inr (True, None)"
    by (simp add: eval_defs loader_defs)
  have m: "fst (fst (make_api_request ?N 0 (default_args ''/accounts'') loaded_world))
             = accounts_reply"
    by (simp add: eval_defs loader_defs)
  have old: "profiles loaded_world = JArr [JObj [(''_id'', JStr ''p1''), (''name'', JStr ''Main'')]]"
    by (simp add: loaded_world_def)
  from loader_replaces_or_keeps [OF prod.collapse [symmetric] prod.collapse [symmetric],
      of "net_const TimeoutExc" 0 loaded_world ?N 0 loaded_world] p q m old
  show ?thesis by (auto simp: accounts_reply_def)
qed

text \<open>
  Claim C10, with the status codes the client accepts: when a \<open>load_profiles\<close> or
  \<open>load_accounts\<close> request reaches the network and is answered with status 200 or 201 and
  a JSON body that is falsy, the loader returns \<open>(False, None)\<close> and leaves its list
  unchanged.
\<close>

theorem falsy_payload_is_failure:
  assumes key: "api_key w \<noteq> []" and st: "st = 200 \<or> st = 201" and falsy: "\<not> truthy d"
  shows "(\<not> fresh now (cache w (default_args ''/profiles''))
          \<and> build_call (api_key w) (default_args ''/profiles'') = Some c
          \<and> net c = Response st (Inr d) t
          \<longrightarrow> fst (load_profiles net now w) = Inr (False, None)
              \<and> profiles (snd (load_profiles net now w)) = profiles w)
       \<and> (\<not> fresh now (cache w (default_args ''/accounts''))
          \<and> build_call (api_key w) (default_args ''/accounts'') = Some c
          \<and> net c = Response st (Inr d) t
          \<longrightarrow> fst (load_accounts net now w) = Inr (False, None)
              \<and> accounts (snd (load_accounts net now w)) = accounts w)"
proof -
  have cl: "classify (Response st (Inr d) t) = (d, None)"
    using st by (auto simp: classify_def)
  have P: "fst (load_profiles net now w) = Inr (False, None)
           \<and> profiles (snd (load_profiles net now w)) = profiles w"
    if m: "\<not> fresh now (cache w (default_args ''/profiles''))"
      and b: "build_call (api_key w) (default_args ''/profiles'') = Some c"
      and n: "net c = Response st (Inr d) t"
    using make_api_request_miss [OF m, of net] body_with_call [OF key b, of net] n cl falsy
    by (simp add: load_profiles_def)
  have Q: "fst (load_accounts net now w) = Inr (False, None)
           \<and> accounts (snd (load_accounts net now w)) = accounts w"
    if m: "\<not> fresh now (cache w (default_args ''/accounts''))"
      and b: "build_call (api_key w) (default_args ''/accounts'') = Some c"
      and n: "net c = Response st (Inr d) t"
    using make_api_request_miss [OF m, of net] body_with_call [OF key b, of net] n cl falsy
    by (simp add: load_accounts_def)
  show ?thesis using P Q by blast
qed

theorem falsy_payload_is_failure_witness:
  "api_key loaded_world \<noteq> [] \<and> ((200::nat) = 200 \<or> (200::nat) = 201) \<and> \<not> truthy (JObj [])
   \<and> \<not> fresh 0 (cache loaded_world (default_args ''/profiles''))
   \<and> build_call (api_key loaded_world) (default_args ''/profiles'')
       = Some \<lparr>verb = ''GET'', url = ''https://getlate.dev/api/v1/profiles'',
               headers = [(''Authorization'', ''Bearer abc123''),
                          (''Content-Type'', ''application/json'')],
               query = JNull, json_body = JNull, multipart = None, timeout = 30\<rparr>
   \<and> fst (load_profiles (net_const (Response 200 (Inr (JObj [])) ''{}'')) 0 loaded_world)
       = Inr (False, None)
   \<and> profiles (snd (load_profiles (net_const (Response 200 (Inr (JObj [])) ''{}'')) 0 loaded_world))
       = JArr [JObj [(''_id'', JStr ''p1''), (''name'', JStr ''Main'')]]"
proof -
  let ?c = "\<lparr>verb = ''GET'', url = ''https://getlate.dev/api/v1/profiles'',
               headers = [(''Authorization'', ''Bearer abc123''),
                          (''Content-Type'', ''application/json'')],
               query = JNull, json_body = JNull, multipart = None, timeout = 30\<rparr>"
  have k: "api_key loaded_world \<noteq> []"
    by (simp add: loaded_world_def keyed_world_def)
  have s: "(200::nat) = 200 \<or> (200::nat) = 201" by simp
  have f: "\<not> truthy (JObj [])" by simp
  have m: "\<not> fresh 0 (cache loaded_world (default_args ''/profiles''))"
    by (simp add: fresh_def loaded_world_def keyed_world_def init_world_def)
  have b: "build_call (api_key loaded_world) (default_args ''/profiles'') = Some ?c"
    by (simp add: build_call_def default_args_def base_url_def auth_headers_def
        loaded_world_def keyed_world_def)
  have n: "net_const (Response 200 (Inr (JObj [])) ''{}'') ?c = Response 200 (Inr (JObj [])) ''{}''"
    by (simp add: net_const_def)
  have old: "profiles loaded_world = JArr [JObj [(''_id'', JStr ''p1''), (''name'', JStr ''Main'')]]"
    by (simp add: loaded_world_def)
  from falsy_payload_is_failure [OF k s f, of 0 ?c
      "net_const (Response 200 (Inr (JObj [])) ''{}'')" "''{}''"] m b n old
  show ?thesis using k f by simp
qed

text \<open>
  For every 2xx status C10 fails: the client takes only 200 and 201 for a success, and a
  202 with the body \<open>{}\<close> gives the loader an error message.
\<close>

theorem falsy_2xx_counterexample:
  "fst (load_profiles (net_const (Response 202 (Inr (JObj [])) ''{}'')) 0 loaded_world)
     = Inr (False, Some ''Error 202: {}'')"
  by (simp add: eval_defs loader_defs)

section \<open>Claims on key validation and the combined refresh\<close>

lemma validate_api_key_eq:
  "api_key w \<noteq> [] \<Longrightarrow>
   make_api_request net now (default_args ''/profiles'') w = ((d, err), w1) \<Longrightarrow>
   validate_api_key net now w =
     (if d \<noteq> JNull then ((True, Some ''API key is valid''), w1) else ((False, err), w1))"
  by (simp add: validate_api_key_def)

text \<open>
  Claim C8, as the code has it: \<open>validate_api_key\<close> tests the payload of the profiles
  request against \<open>None\<close>, \<open>load_profiles\<close> tests its truth value. Without a key the
  answer is \<open>(False, No API key provided)\<close> and no request is made. With a key, the key
  is reported valid exactly when the payload is not \<open>None\<close>; whenever \<open>load_profiles\<close>
  reports success on the same request, the key is reported valid; and whenever the key is
  reported invalid, the message is the error of the request and \<open>load_profiles\<close> reports
  failure with that same message.
\<close>

theorem valid_iff_payload_not_none:
  "(api_key w = [] \<longrightarrow> validate_api_key net now w = ((False, Some ''No API key provided''), w))
   \<and> (api_key w \<noteq> [] \<longrightarrow>
        (fst (fst (validate_api_key net now w))
           \<longleftrightarrow> fst (fst (make_api_request net now (default_args ''/profiles'') w)) \<noteq> JNull)
      \<and> (fst (load_profiles net now w) = Inr (True, None)
           \<longrightarrow> fst (validate_api_key net now w) = (True, Some ''API key is valid''))
      \<and> (\<not> fst (fst (validate_api_key net now w))
           \<longrightarrow> fst (validate_api_key net now w)
                 = (False, snd (fst (make_api_request net now (default_args ''/profiles'') w)))
               \<and> fst (load_profiles net now w)
                 = Inr (False, snd (fst (make_api_request net now (default_args ''/profiles'') w)))))"
proof -
  obtain d err w1 where m: "make_api_request net now (default_args ''/profiles'') w = ((d, err), w1)"
    by (metis surj_pair)
  have e: "api_key w = [] \<longrightarrow> validate_api_key net now w = ((False, Some ''No API key provided''), w)"
    by (simp add: validate_api_key_def)
  have k: "(fst (fst (validate_api_key net now w)) \<longleftrightarrow> d \<noteq> JNull)
      \<and> (fst (load_profiles net now w) = Inr (True, None)
           \<longrightarrow> fst (validate_api_key net now w) = (True, Some ''API key is valid''))
      \<and> (\<not> fst (fst (validate_api_key net now w))
           \<longrightarrow> fst (validate_api_key net now w) = (False, err)
               \<and> fst (load_profiles net now w) = Inr (False, err))"
    if "api_key w \<noteq> []"
  proof -
    have v: "fst (validate_api_key net now w)
               = (if d \<noteq> JNull then (True, Some ''API key is valid'') else (False, err))"
      using validate_api_key_eq [OF that m] by simp
    have l: "d = JNull \<Longrightarrow> fst (load_profiles net now w) = Inr (False, err)"
      using load_profiles_eq [OF m] by simp
    have s: "fst (load_profiles net now w) = Inr (True, None) \<Longrightarrow> d \<noteq> JNull"
      using load_profiles_eq [OF m] by (auto split: if_splits)
    show ?thesis using v l s by (cases "d = JNull") simp_all
  qed
  have dd: "fst (fst (make_api_request net now (default_args ''/profiles'') w)) = d"
    and ee: "snd (fst (make_api_request net now (default_args ''/profiles'') w)) = err"
    using m by simp_all
  show ?thesis unfolding dd ee using e k by blast
qed

theorem valid_iff_payload_not_none_witness:
  "api_key loaded_world \<noteq> []
   \<and> fst (load_profiles (net_const (Response 200 (Inr (JObj [(''profiles'', JArr [])])) [])) 0
            loaded_world) = Inr (True, None)
   \<and> fst (validate_api_key (net_const (Response 200 (Inr (JObj [(''profiles'', JArr [])])) [])) 0
            loaded_world) = (True, Some ''API key is valid'')
   \<and> api_key init_world = []
   \<and> validate_api_key (net_const TimeoutExc) 0 init_world
       = ((False, Some ''No API key provided''), init_world)"
proof -
  let ?N = "net_const (Response 200 (Inr (JObj [(''profiles'', JArr [])])) [])"
  have k: "api_key loaded_world \<noteq> []"
    by (simp add: loaded_world_def keyed_world_def)
  have l: "fst (load_profiles ?N 0 loaded_world) = Inr (True, None)"
    by (simp add: eval_defs loader_defs)
  have e: "api_key init_world = []"
    by (simp add: init_world_def)
  from valid_iff_payload_not_none [of loaded_world ?N 0]
    valid_iff_payload_not_none [of init_world "net_const TimeoutExc" 0] k l e
  show ?thesis by simp
qed

text \<open>
  As an equivalence C8 fails: a 200 response with the body \<open>{}\<close> makes the key valid while
  \<open>load_profiles\<close> reports failure.
\<close>

theorem valid_iff_loaded_counterexample:
  "fst (validate_api_key (net_const (Response 200 (Inr (JObj [])) ''{}'')) 0 keyed_world)
     = (True, Some ''API key is valid'')
   \<and> fst (load_profiles (net_const (Response 200 (Inr (JObj [])) ''{}'')) 0 keyed_world)
     = Inr (False, None)"
  by (simp add: eval_defs loader_defs)

lemma trace_after_request:
  "\<exists>zs. trace (snd (make_api_request net now a w)) = trace w @ Lookup a # zs"
  by (cases "fresh now (cache w a)") (simp_all add: make_api_request_hit make_api_request_miss)

lemma trace_after_load_profiles:
  "\<exists>zs. trace (snd (load_profiles net now w)) = trace w @ Lookup (default_args ''/profiles'') # zs"
proof -
  obtain d err w1 where m: "make_api_request net now (default_args ''/profiles'') w = ((d, err), w1)"
    by (metis surj_pair)
  from trace_after_request [of net now "default_args ''/profiles''" w] m
  show ?thesis
    unfolding load_profiles_eq [OF m] by (auto split: sum.splits)
qed

lemma trace_after_load_accounts:
  "\<exists>zs. trace (snd (load_accounts net now w)) = trace w @ Lookup (default_args ''/accounts'') # zs"
proof -
  obtain d err w1 where m: "make_api_request net now (default_args ''/accounts'') w = ((d, err), w1)"
    by (metis surj_pair)
  from trace_after_request [of net now "default_args ''/accounts''" w] m
  show ?thesis
    unfolding load_accounts_eq [OF m] by (auto split: sum.splits)
qed

text \<open>
  Claim C5, as the code has it: in a refresh with a key set, whenever \<open>load_profiles\<close>
  returns (success or failure) \<open>load_accounts\<close> is called after it, so both requests are
  looked up in this order. When both succeed the success message is shown and the time of
  the refresh recorded. Otherwise one message is shown, built from
  \<open>profiles_error or accounts_error\<close>: the profiles error when it is a non-empty text, so
  that the accounts error is not shown when both fail, and the accounts error otherwise.
\<close>

theorem refresh_attempts_both_shows_one:
  assumes key: "api_key w \<noteq> []"
    and p: "load_profiles net now w = (Inr (ps, pe), w1)"
    and a: "load_accounts net now w1 = (Inr (as, ae), w2)"
  shows "(\<exists>xs ys. trace (snd (refresh_data net now w))
            = trace w @ Lookup (default_args ''/profiles'') # xs
                @ Lookup (default_args ''/accounts'') # ys)
       \<and> (ps \<and> as \<longrightarrow> refresh_data net now w
            = (([UiSuccess ''Data refreshed successfully!''], None),
               w2\<lparr>last_refresh := Some now\<rparr>))
       \<and> (\<not> (ps \<and> as) \<longrightarrow> refresh_data net now w
            = (([UiError (''Refresh failed: '' @ fmt_error (py_or pe ae))], None), w2))
       \<and> (\<forall>m. pe = Some m \<and> m \<noteq> [] \<longrightarrow> py_or pe ae = Some m)
       \<and> (pe = None \<or> pe = Some [] \<longrightarrow> py_or pe ae = ae)"
proof -
  from trace_after_load_profiles [of net now w] p obtain xs where
    t1: "trace w1 = trace w @ Lookup (default_args ''/profiles'') # xs" by auto
  from trace_after_load_accounts [of net now w1] a obtain ys where
    t2: "trace w2 = trace w1 @ Lookup (default_args ''/accounts'') # ys" by auto
  have r: "refresh_data net now w =
      (if ps \<and> as then (([UiSuccess ''Data refreshed successfully!''], None),
                         w2\<lparr>last_refresh := Some now\<rparr>)
       else (([UiError (''Refresh failed: '' @ fmt_error (py_or pe ae))], None), w2))"
    using key p a by (simp add: refresh_data_def)
  have tr: "trace (snd (refresh_data net now w)) = trace w2"
    by (simp add: r)
  have "\<exists>xs ys. trace (snd (refresh_data net now w))
            = trace w @ Lookup (default_args ''/profiles'') # xs
                @ Lookup (default_args ''/accounts'') # ys"
    unfolding tr t2 t1 by auto
  moreover have "\<forall>m. pe = Some m \<and> m \<noteq> [] \<longrightarrow> py_or pe ae = Some m"
    by (simp add: py_or_def)
  moreover have "pe = None \<or> pe = Some [] \<longrightarrow> py_or pe ae = ae"
    by (auto simp: py_or_def)
  ultimately show ?thesis using r by simp
qed

theorem refresh_attempts_both_shows_one_witness:
  "api_key keyed_world \<noteq> []
   \<and> load_profiles failing_net 0 keyed_world
       = (Inr (False, Some ''Unauthorized: Please check your API key''),
          snd (load_profiles failing_net 0 keyed_world))
   \<and> load_accounts failing_net 0 (snd (load_profiles failing_net 0 keyed_world))
       = (Inr (False, Some ''Server error. Please try again later''),
          snd (load_accounts failing_net 0 (snd (load_profiles failing_net 0 keyed_world))))
   \<and> fst (refresh_data failing_net 0 keyed_world)
       = ([UiError ''Refresh failed: Unauthorized: Please check your API key''], None)
   \<and> length (filter (\<lambda>e. e = Lookup (default_args ''/accounts''))
               (trace (snd (refresh_data failing_net 0 keyed_world)))) = 1"
proof -
  have k: "api_key keyed_world \<noteq> []"
    by (simp add: keyed_world_def)
  have p: "load_profiles failing_net 0 keyed_world
       = (Inr (False, Some ''Unauthorized: Please check your API key''),
          snd (load_profiles failing_net 0 keyed_world))"
    by (simp add: prod_eq_iff eval_defs loader_defs failing_net_def)
  have a: "load_accounts failing_net 0 (snd (load_profiles failing_net 0 keyed_world))
       = (Inr (False, Some ''Server error. Please try again later''),
          snd (load_accounts failing_net 0 (snd (load_profiles failing_net 0 keyed_world))))"
    by (simp add: prod_eq_iff eval_defs loader_defs failing_net_def)
  have t: "length (filter (\<lambda>e. e = Lookup (default_args ''/accounts''))
               (trace (snd (refresh_data failing_net 0 keyed_world)))) = 1"
    by (simp add: eval_defs loader_defs failing_net_def)
  from refresh_attempts_both_shows_one [OF k p a] t
  show ?thesis using k p a by (simp add: fmt_error_def)
qed

text \<open>
  As stated (both error messages surfaced) C5 fails: with \<open>/profiles\<close> answered by 401 and
  \<open>/accounts\<close> by 500 both loaders fail, and the one message shown carries the profiles
  error only.
\<close>

theorem both_errors_counterexample:
  "fst (load_profiles failing_net 0 keyed_world)
     = Inr (False, Some ''Unauthorized: Please check your API key'')
   \<and> fst (load_accounts failing_net 0 (snd (load_profiles failing_net 0 keyed_world)))
     = Inr (False, Some ''Server error. Please try again later'')
   \<and> fst (refresh_data failing_net 0 keyed_world)
     = ([UiError ''Refresh failed: Unauthorized: Please check your API key''], None)"
  by (simp add: eval_defs loader_defs failing_net_def)

section \<open>Claims on scheduling a post\<close>

lemma reddit_link_error:
  assumes "acc \<in> set sel" "platform acc = ''reddit''" "platformSpecificData acc = Some rd"
    "post_type rd = ''link''" "link_url rd = None \<or> link_url rd = Some []"
  shows "''URL is required for Reddit link posts'' \<in> set (validate_post c sel)"
proof -
  have "''URL is required for Reddit link posts'' \<in> set (reddit_errors acc)"
    using assms by (auto simp: reddit_errors_def)
  with assms(1) show ?thesis by (auto simp: validate_post_def)
qed

text \<open>
  Claim C6: a submission whose content is empty (or blank) and that selects no account
  shows the two messages \<open>Post content is required\<close> and
  \<open>At least one platform must be selected\<close> and leaves the world as it was: no look-up,
  no body run, no network call. A submission with a Reddit entry whose data have the type
  \<open>link\<close> and no URL (absent or empty) shows \<open>URL is required for Reddit link posts\<close>
  among its messages and leaves the world as it was. And whenever the list of validation
  errors is not empty, what is shown is that list, one message per error, and the world is
  as it was.
\<close>

theorem validation_short_circuits:
  "(py_strip (content f) = [] \<and> selected_accounts f = [] \<longrightarrow>
      submit_post net now f w
        = ([UiError ''Post content is required'',
            UiError ''At least one platform must be selected''], w))
   \<and> (\<forall>acc rd. acc \<in> set (selected_accounts f) \<and> platform acc = ''reddit''
          \<and> platformSpecificData acc = Some rd \<and> post_type rd = ''link''
          \<and> (link_url rd = None \<or> link_url rd = Some [])
        \<longrightarrow> UiError ''URL is required for Reddit link posts''
              \<in> set (fst (submit_post net now f w))
          \<and> snd (submit_post net now f w) = w)
   \<and> (validate_post (content f) (selected_accounts f) \<noteq> [] \<longrightarrow>
        submit_post net now f w
          = (map UiError (validate_post (content f) (selected_accounts f)), w))"
proof -
  have c: "submit_post net now f w
             = (map UiError (validate_post (content f) (selected_accounts f)), w)"
    if "validate_post (content f) (selected_accounts f) \<noteq> []"
    using that by (simp add: submit_post_def)
  have a: "submit_post net now f w
        = ([UiError ''Post content is required'',
            UiError ''At least one platform must be selected''], w)"
    if "py_strip (content f) = []" "selected_accounts f = []"
    using that by (simp add: submit_post_def validate_post_def)
  have b: "UiError ''URL is required for Reddit link posts'' \<in> set (fst (submit_post net now f w))
          \<and> snd (submit_post net now f w) = w"
    if "acc \<in> set (selected_accounts f)" "platform acc = ''reddit''"
      "platformSpecificData acc = Some rd" "post_type rd = ''link''"
      "link_url rd = None \<or> link_url rd = Some []" for acc rd
  proof -
    from reddit_link_error [OF that, of "content f"]
    have m: "''URL is required for Reddit link posts''
               \<in> set (validate_post (content f) (selected_accounts f))" .
    then have "validate_post (content f) (selected_accounts f) \<noteq> []" by auto
    from c [OF this] m show ?thesis by simp
  qed
  show ?thesis using a b c by blast
qed

theorem validation_short_circuits_witness:
  "py_strip (content blank_form) = [] \<and> selected_accounts blank_form = []
   \<and> submit_post (net_const TimeoutExc) 0 blank_form keyed_world
       = ([UiError ''Post content is required'',
           UiError ''At least one platform must be selected''], keyed_world)
   \<and> platform_data_of link_row \<in> set (selected_accounts link_form)
   \<and> platform (platform_data_of link_row) = ''reddit''
   \<and> platformSpecificData (platform_data_of link_row)
       = Some \<lparr>subreddit = ''programming'', post_type = ''link'', link_url = None\<rparr>
   \<and> validate_post (content link_form) (selected_accounts link_form) \<noteq> []
   \<and> submit_post (net_const TimeoutExc) 0 link_form keyed_world
       = ([UiError ''URL is required for Reddit link posts''], keyed_world)"
proof -
  have e: "py_strip (content blank_form) = [] \<and> selected_accounts blank_form = []"
    by (simp add: form_defs)
  have m: "platform_data_of link_row \<in> set (selected_accounts link_form)"
    by (simp add: form_defs)
  have p: "platform (platform_data_of link_row) = ''reddit''"
    by (simp add: form_defs)
  have d: "platformSpecificData (platform_data_of link_row)
       = Some \<lparr>subreddit = ''programming'', post_type = ''link'', link_url = None\<rparr>"
    by (simp add: form_defs)
  have v: "validate_post (content link_form) (selected_accounts link_form)
             = [''URL is required for Reddit link posts'']"
    by (simp add: form_defs)
  from validation_short_circuits [of blank_form "net_const TimeoutExc" 0 keyed_world]
    validation_short_circuits [of link_form "net_const TimeoutExc" 0 keyed_world] e m p d v
  show ?thesis by simp
qed

text \<open>
  The Reddit data of an entry exist only when a subreddit was typed (line 742): the same
  row with the subreddit left blank carries no type, and the subreddit message is the only
  one.
\<close>

lemma blank_subreddit_row:
  "validate_post ''Hello''
     (selected_accounts_of [link_row\<lparr>subreddit_input := []\<rparr>])
   = [''Subreddit is required for Reddit posts'']"
  by (simp add: form_defs)

section \<open>Claims on the operations that post\<close>

lemma submit_post_world:
  "validate_post (content f) (selected_accounts f) = [] \<Longrightarrow>
   snd (submit_post net now f w)
     = snd (make_api_request net now (post_args ''/posts'' (post_data f)) w)"
  by (simp add: submit_post_def split: prod.splits)

lemma upload_media_world:
  "snd (upload_media net now bytes w) = snd (make_api_request net now (media_args bytes) w)"
  by (simp add: upload_media_def Let_def split: prod.splits sum.splits)

lemma create_profile_world:
  "2 \<le> length (py_strip name) \<Longrightarrow>
   snd (create_profile net now name description color set_default w)
     = (if truthy (fst (fst (make_api_request net now
            (post_args ''/profiles'' (profile_data name description color set_default)) w)))
        then snd (load_profiles net now (snd (make_api_request net now
            (post_args ''/profiles'' (profile_data name description color set_default)) w)))
        else snd (make_api_request net now
            (post_args ''/profiles'' (profile_data name description color set_default)) w))"
  by (auto simp: create_profile_def Let_def split: prod.splits sum.splits)

lemma net_calls_after_request:
  "\<exists>cs. net_calls (snd (make_api_request net now a w)) = net_calls w @ cs
        \<and> (\<forall>c\<in>set cs. build_call (api_key w) a = Some c)"
proof (cases "fresh now (cache w a)")
  case True
  then show ?thesis by (simp add: net_calls_hit)
next
  case False
  have "\<forall>c\<in>set (snd (make_api_request_body net (api_key w) a)). build_call (api_key w) a = Some c"
    by (auto simp: make_api_request_body_def split: if_splits option.splits)
  with False show ?thesis by (simp add: net_calls_miss)
qed

lemma load_profiles_sends_no_post:
  "filter (\<lambda>c. verb c = ''POST'') (net_calls (snd (load_profiles net now w)))
     = filter (\<lambda>c. verb c = ''POST'') (net_calls w)"
proof -
  obtain d err w1 where m: "make_api_request net now (default_args ''/profiles'') w = ((d, err), w1)"
    by (metis surj_pair)
  from net_calls_after_request [of net now "default_args ''/profiles''" w] m obtain cs where
    n: "net_calls w1 = net_calls w @ cs"
    and b: "\<forall>c\<in>set cs. build_call (api_key w) (default_args ''/profiles'') = Some c"
    by auto
  have g: "\<forall>c\<in>set cs. verb c = ''GET''"
    using b by (auto simp: build_call_def default_args_def)
  then have "filter (\<lambda>c. verb c = ''POST'') cs = []"
    by (auto simp: filter_empty_conv)
  moreover have "net_calls (snd (load_profiles net now w)) = net_calls w1"
    unfolding load_profiles_eq [OF m] by (auto simp: net_calls_def split: sum.splits)
  ultimately show ?thesis using n by simp
qed

lemma request_hit_entry:
  "cache w a = Some (r, ts) \<Longrightarrow> now < ts + ttl \<Longrightarrow>
   make_api_request net now a w = (r, w\<lparr>trace := trace w @ [Lookup a]\<rparr>)"
  by (simp add: make_api_request_def)

lemma request_miss_sent:
  "\<not> fresh now (cache w a) \<Longrightarrow> api_key w \<noteq> [] \<Longrightarrow> build_call (api_key w) a = Some c \<Longrightarrow>
   make_api_request net now a w
     = (classify (net c),
        w\<lparr>cache := (cache w)(a \<mapsto> (classify (net c), now)),
          trace := trace w @ [Lookup a, BodyRun a, NetCall c]\<rparr>)"
  by (simp add: make_api_request_miss body_with_call)

lemma build_post_args:
  "build_call key (post_args ep d)
     = Some \<lparr>verb = ''POST'', url = base_url @ ep, headers = auth_headers key, query = JNull,
             json_body = d, multipart = None, timeout = 30\<rparr>"
  by (simp add: build_call_def post_args_def files_given_def)

lemma build_media_args:
  "build_call key (media_args bytes)
     = Some \<lparr>verb = ''POST'', url = base_url @ ''/media'',
             headers = [(''Authorization'', ''Bearer '' @ key)], query = JNull,
             json_body = JNull, multipart = Some [(''files'', bytes)], timeout = 60\<rparr>"
  by (simp add: build_call_def media_args_def files_given_def auth_headers_def)

lemma submit_post_split:
  "validate_post (content f) (selected_accounts f) = [] \<Longrightarrow>
   submit_post net now f w
     = (post_shown (fst (make_api_request net now (post_args ''/posts'' (post_data f)) w)),
        snd (make_api_request net now (post_args ''/posts'' (post_data f)) w))"
  by (simp add: submit_post_def post_shown_def split: prod.splits)

lemma upload_media_split:
  "upload_media net now bytes w
     = (media_outcome (fst (make_api_request net now (media_args bytes) w)),
        snd (make_api_request net now (media_args bytes) w))"
  by (simp add: upload_media_def media_outcome_def Let_def split: prod.splits sum.splits)

lemma create_profile_split:
  "2 \<le> length (py_strip name) \<Longrightarrow>
   create_profile net now name description color set_default w
     = after_create net now name
         (fst (make_api_request net now
                 (post_args ''/profiles'' (profile_data name description color set_default)) w))
         (snd (make_api_request net now
                 (post_args ''/profiles'' (profile_data name description color set_default)) w))"
  by (auto simp: create_profile_def after_create_def Let_def split: prod.splits sum.splits)

lemma net_calls_after_load_profiles:
  "\<exists>cs. net_calls (snd (load_profiles net now w)) = net_calls w @ cs
        \<and> (\<forall>c\<in>set cs. verb c = ''GET'')"
proof -
  obtain d err w1 where m: "make_api_request net now (default_args ''/profiles'') w = ((d, err), w1)"
    by (metis surj_pair)
  from net_calls_after_request [of net now "default_args ''/profiles''" w] m obtain cs where
    n: "net_calls w1 = net_calls w @ cs"
    and b: "\<forall>c\<in>set cs. build_call (api_key w) (default_args ''/profiles'') = Some c"
    by auto
  have g: "\<forall>c\<in>set cs. verb c = ''GET''"
    using b by (auto simp: build_call_def default_args_def)
  have "net_calls (snd (load_profiles net now w)) = net_calls w1"
    unfolding load_profiles_eq [OF m] by (auto simp: net_calls_def split: sum.splits)
  with n g show ?thesis by auto
qed

lemma net_calls_after_create:
  "\<exists>cs. net_calls (snd (after_create net now name r w1)) = net_calls w1 @ cs
        \<and> (\<forall>c\<in>set cs. verb c = ''GET'')"
proof (cases "truthy (fst r)")
  case True
  from net_calls_after_load_profiles [of net now w1] obtain cs where
    "net_calls (snd (load_profiles net now w1)) = net_calls w1 @ cs" "\<forall>c\<in>set cs. verb c = ''GET''"
    by blast
  with True show ?thesis
    by (auto simp: after_create_def Let_def split: prod.splits sum.splits)
next
  case False
  then show ?thesis by (simp add: after_create_def)
qed

lemma net_calls_lookup:
  "net_calls (w\<lparr>trace := trace w @ [Lookup a]\<rparr>) = net_calls w"
  by (simp add: net_calls_def)

lemma net_calls_sent:
  "net_calls (w\<lparr>cache := m, trace := trace w @ [Lookup a, BodyRun a, NetCall c]\<rparr>)
     = net_calls w @ [c]"
  by (simp add: net_calls_def)

lemma submit_post_lookup:
  "validate_post (content f) (selected_accounts f) = [] \<Longrightarrow>
   \<exists>zs. trace (snd (submit_post net now f w))
          = trace w @ Lookup (post_args ''/posts'' (post_data f)) # zs"
  unfolding submit_post_world by (rule trace_after_request)

lemma upload_media_lookup:
  "\<exists>zs. trace (snd (upload_media net now bytes w)) = trace w @ Lookup (media_args bytes) # zs"
  unfolding upload_media_world by (rule trace_after_request)

lemma create_profile_lookup:
  assumes n: "2 \<le> length (py_strip name)"
  shows "\<exists>zs. trace (snd (create_profile net now name description color set_default w))
          = trace w @ Lookup (post_args ''/profiles''
                                (profile_data name description color set_default)) # zs"
proof -
  let ?P = "post_args ''/profiles'' (profile_data name description color set_default)"
  let ?w1 = "snd (make_api_request net now ?P w)"
  from trace_after_request [of net now ?P w] obtain zs where
    t1: "trace ?w1 = trace w @ Lookup ?P # zs" by blast
  from trace_after_load_profiles [of net now ?w1] obtain ys where
    t2: "trace (snd (load_profiles net now ?w1))
           = trace ?w1 @ Lookup (default_args ''/profiles'') # ys" by blast
  show ?thesis
    unfolding create_profile_world [OF n] using t1 t2 by auto
qed

lemma create_profile_hit_no_post:
  assumes n: "2 \<le> length (py_strip name)"
    and f: "fresh now (cache w (post_args ''/profiles''
                                  (profile_data name description color set_default)))"
  shows "filter (\<lambda>c. verb c = ''POST'')
           (net_calls (snd (create_profile net now name description color set_default w)))
         = filter (\<lambda>c. verb c = ''POST'') (net_calls w)"
  unfolding create_profile_world [OF n]
  using load_profiles_sends_no_post
          [of net now "snd (make_api_request net now
             (post_args ''/profiles'' (profile_data name description color set_default)) w)"]
        net_calls_hit [OF f, of net]
  by simp

lemma submit_post_hit:
  assumes v: "validate_post (content f) (selected_accounts f) = []"
    and c: "cache w (post_args ''/posts'' (post_data f)) = Some ((r, e), ts)"
    and t: "now < ts + 300"
  shows "submit_post net now f w
           = (post_shown (r, e),
              w\<lparr>trace := trace w @ [Lookup (post_args ''/posts'' (post_data f))]\<rparr>)
         \<and> net_calls (snd (submit_post net now f w)) = net_calls w"
proof -
  from t have "now < ts + ttl" by (simp add: ttl_def)
  from request_hit_entry [OF c this, of net] show ?thesis
    by (simp add: submit_post_split [OF v] net_calls_lookup)
qed

lemma submit_post_miss:
  assumes v: "validate_post (content f) (selected_accounts f) = []"
    and m: "\<not> fresh now (cache w (post_args ''/posts'' (post_data f)))"
    and k: "api_key w \<noteq> []"
  shows "\<exists>c. build_call (api_key w) (post_args ''/posts'' (post_data f)) = Some c
              \<and> verb c = ''POST'' \<and> url c = base_url @ ''/posts''
              \<and> json_body c = post_data f
              \<and> submit_post net now f w
                  = (post_shown (classify (net c)),
                     w\<lparr>cache := (cache w)(post_args ''/posts'' (post_data f)
                                            \<mapsto> (classify (net c), now)),
                       trace := trace w @ [Lookup (post_args ''/posts'' (post_data f)),
                                           BodyRun (post_args ''/posts'' (post_data f)),
                                           NetCall c]\<rparr>)
              \<and> net_calls (snd (submit_post net now f w)) = net_calls w @ [c]"
proof -
  note b = build_post_args [of "api_key w" "''/posts''" "post_data f"]
  from request_miss_sent [OF m k b, of net] show ?thesis
    by (simp add: submit_post_split [OF v] net_calls_sent b)
qed

lemma upload_media_hit:
  assumes c: "cache w (media_args bytes) = Some ((r, e), ts)" and t: "now < ts + 300"
  shows "upload_media net now bytes w
            = (media_outcome (r, e), w\<lparr>trace := trace w @ [Lookup (media_args bytes)]\<rparr>)
        \<and> net_calls (snd (upload_media net now bytes w)) = net_calls w"
proof -
  from t have "now < ts + ttl" by (simp add: ttl_def)
  from request_hit_entry [OF c this, of net] show ?thesis
    by (simp add: upload_media_split net_calls_lookup)
qed

lemma upload_media_miss:
  assumes m: "\<not> fresh now (cache w (media_args bytes))" and k: "api_key w \<noteq> []"
  shows "\<exists>c. build_call (api_key w) (media_args bytes) = Some c
              \<and> verb c = ''POST'' \<and> url c = base_url @ ''/media''
              \<and> multipart c = Some [(''files'', bytes)]
              \<and> upload_media net now bytes w
                  = (media_outcome (classify (net c)),
                     w\<lparr>cache := (cache w)(media_args bytes \<mapsto> (classify (net c), now)),
                       trace := trace w @ [Lookup (media_args bytes),
                                           BodyRun (media_args bytes), NetCall c]\<rparr>)
              \<and> net_calls (snd (upload_media net now bytes w)) = net_calls w @ [c]"
proof -
  note b = build_media_args [of "api_key w" bytes]
  from request_miss_sent [OF m k b, of net] show ?thesis
    by (simp add: upload_media_split net_calls_sent b)
qed

lemma create_profile_hit:
  assumes n: "2 \<le> length (py_strip name)"
    and c: "cache w (post_args ''/profiles'' (profile_data name description color set_default))
              = Some ((r, e), ts)"
    and t: "now < ts + 300"
  shows "create_profile net now name description color set_default w
            = after_create net now name (r, e)
                (w\<lparr>trace := trace w @ [Lookup (post_args ''/profiles''
                                   (profile_data name description color set_default))]\<rparr>)
        \<and> filter (\<lambda>c. verb c = ''POST'')
             (net_calls (snd (create_profile net now name description color set_default w)))
           = filter (\<lambda>c. verb c = ''POST'') (net_calls w)"
proof -
  from t have t': "now < ts + ttl" by (simp add: ttl_def)
  with c have f: "fresh now (cache w (post_args ''/profiles''
                    (profile_data name description color set_default)))"
    by (simp add: fresh_def)
  from request_hit_entry [OF c t', of net]
  have "create_profile net now name description color set_default w
          = after_create net now name (r, e)
              (w\<lparr>trace := trace w @ [Lookup (post_args ''/profiles''
                                 (profile_data name description color set_default))]\<rparr>)"
    by (simp add: create_profile_split [OF n])
  then show ?thesis using create_profile_hit_no_post [OF n f, of net] by (intro conjI)
qed

lemma create_profile_miss:
  assumes n: "2 \<le> length (py_strip name)"
    and m: "\<not> fresh now (cache w (post_args ''/profiles''
                                (profile_data name description color set_default)))"
    and k: "api_key w \<noteq> []"
  shows "\<exists>c. build_call (api_key w) (post_args ''/profiles''
                                         (profile_data name description color set_default))
                  = Some c
              \<and> verb c = ''POST'' \<and> url c = base_url @ ''/profiles''
              \<and> json_body c = profile_data name description color set_default
              \<and> create_profile net now name description color set_default w
                  = after_create net now name (classify (net c))
                      (w\<lparr>cache := (cache w)(post_args ''/profiles''
                                       (profile_data name description color set_default)
                                     \<mapsto> (classify (net c), now)),
                         trace := trace w
                           @ [Lookup (post_args ''/profiles''
                                        (profile_data name description color set_default)),
                              BodyRun (post_args ''/profiles''
                                         (profile_data name description color set_default)),
                              NetCall c]\<rparr>)
              \<and> (\<exists>cs. net_calls (snd (create_profile net now name description color
                                            set_default w))
                         = net_calls w @ c # cs
                       \<and> (\<forall>x\<in>set cs. verb x = ''GET''))"
proof -
  let ?P = "post_args ''/profiles'' (profile_data name description color set_default)"
  let ?c = "\<lparr>verb = ''POST'', url = base_url @ ''/profiles'', headers = auth_headers (api_key w),
             query = JNull, json_body = profile_data name description color set_default,
             multipart = None, timeout = 30\<rparr>"
  let ?w1 = "w\<lparr>cache := (cache w)(?P \<mapsto> (classify (net ?c), now)),
               trace := trace w @ [Lookup ?P, BodyRun ?P, NetCall ?c]\<rparr>"
  have b: "build_call (api_key w) ?P = Some ?c"
    by (rule build_post_args)
  from request_miss_sent [OF m k b, of net]
  have e: "create_profile net now name description color set_default w
             = after_create net now name (classify (net ?c)) ?w1"
    by (simp add: create_profile_split [OF n])
  from net_calls_after_create [of net now name "classify (net ?c)" ?w1] obtain cs where
    "net_calls (snd (after_create net now name (classify (net ?c)) ?w1)) = net_calls ?w1 @ cs"
    "\<forall>x\<in>set cs. verb x = ''GET''" by blast
  then have nc: "\<exists>cs. net_calls (snd (create_profile net now name description color set_default w))
               = net_calls w @ ?c # cs \<and> (\<forall>x\<in>set cs. verb x = ''GET'')"
    by (simp add: e net_calls_sent)
  show ?thesis
  proof (rule exI [of _ ?c], intro conjI)
    show "build_call (api_key w) ?P = Some ?c" by (rule b)
    show "create_profile net now name description color set_default w
            = after_create net now name (classify (net ?c)) ?w1" by (rule e)
    show "\<exists>cs. net_calls (snd (create_profile net now name description color set_default w))
               = net_calls w @ ?c # cs \<and> (\<forall>x\<in>set cs. verb x = ''GET'')" by (rule nc)
  qed simp_all
qed

text \<open>
  Claim C2, as the code has it: scheduling a post, creating a profile and uploading an image
  call the same decorated function as every read. Each of them (once its own validation has
  passed) looks its arguments up in the cache. When a fresh entry exists, which is the case
  for an identical invocation within 300 seconds, the operation goes on from the stored
  pair exactly as it would from a reply, and the world gains the look-up and nothing else:
  no POST is sent (after a created profile the profiles are loaded again, which may send a
  GET). When no fresh entry exists and a key is set, the POST is sent, with the body or the
  file of the operation; its classified result is stored under the arguments at the
  current clock reading, and the operation goes on from it.
\<close>

theorem mutations_go_through_the_cache:
  "(validate_post (content f) (selected_accounts f) = [] \<longrightarrow>
      (\<exists>zs. trace (snd (submit_post net now f w))
              = trace w @ Lookup (post_args ''/posts'' (post_data f)) # zs)
    \<and> (\<forall>r e ts. cache w (post_args ''/posts'' (post_data f)) = Some ((r, e), ts)
                  \<and> now < ts + 300 \<longrightarrow>
          submit_post net now f w
            = (post_shown (r, e),
               w\<lparr>trace := trace w @ [Lookup (post_args ''/posts'' (post_data f))]\<rparr>)
        \<and> net_calls (snd (submit_post net now f w)) = net_calls w)
    \<and> (\<not> fresh now (cache w (post_args ''/posts'' (post_data f))) \<and> api_key w \<noteq> [] \<longrightarrow>
          (\<exists>c. build_call (api_key w) (post_args ''/posts'' (post_data f)) = Some c
              \<and> verb c = ''POST'' \<and> url c = base_url @ ''/posts''
              \<and> json_body c = post_data f
              \<and> submit_post net now f w
                  = (post_shown (classify (net c)),
                     w\<lparr>cache := (cache w)(post_args ''/posts'' (post_data f)
                                            \<mapsto> (classify (net c), now)),
                       trace := trace w @ [Lookup (post_args ''/posts'' (post_data f)),
                                           BodyRun (post_args ''/posts'' (post_data f)),
                                           NetCall c]\<rparr>)
              \<and> net_calls (snd (submit_post net now f w)) = net_calls w @ [c])))
   \<and> (2 \<le> length (py_strip name) \<longrightarrow>
      (\<exists>zs. trace (snd (create_profile net now name description color set_default w))
              = trace w @ Lookup (post_args ''/profiles''
                                    (profile_data name description color set_default)) # zs)
    \<and> (\<forall>r e ts. cache w (post_args ''/profiles''
                             (profile_data name description color set_default))
                    = Some ((r, e), ts) \<and> now < ts + 300 \<longrightarrow>
          create_profile net now name description color set_default w
            = after_create net now name (r, e)
                (w\<lparr>trace := trace w @ [Lookup (post_args ''/profiles''
                                   (profile_data name description color set_default))]\<rparr>)
        \<and> filter (\<lambda>c. verb c = ''POST'')
             (net_calls (snd (create_profile net now name description color set_default w)))
           = filter (\<lambda>c. verb c = ''POST'') (net_calls w))
    \<and> (\<not> fresh now (cache w (post_args ''/profiles''
                                (profile_data name description color set_default)))
        \<and> api_key w \<noteq> [] \<longrightarrow>
          (\<exists>c. build_call (api_key w) (post_args ''/profiles''
                                         (profile_data name description color set_default))
                  = Some c
              \<and> verb c = ''POST'' \<and> url c = base_url @ ''/profiles''
              \<and> json_body c = profile_data name description color set_default
              \<and> create_profile net now name description color set_default w
                  = after_create net now name (classify (net c))
                      (w\<lparr>cache := (cache w)(post_args ''/profiles''
                                       (profile_data name description color set_default)
                                     \<mapsto> (classify (net c), now)),
                         trace := trace w
                           @ [Lookup (post_args ''/profiles''
                                        (profile_data name description color set_default)),
                              BodyRun (post_args ''/profiles''
                                         (profile_data name description color set_default)),
                              NetCall c]\<rparr>)
              \<and> (\<exists>cs. net_calls (snd (create_profile net now name description color
                                            set_default w))
                         = net_calls w @ c # cs
                       \<and> (\<forall>x\<in>set cs. verb x = ''GET'')))))
   \<and> (\<exists>zs. trace (snd (upload_media net now bytes w))
              = trace w @ Lookup (media_args bytes) # zs)
   \<and> (\<forall>r e ts. cache w (media_args bytes) = Some ((r, e), ts) \<and> now < ts + 300 \<longrightarrow>
          upload_media net now bytes w
            = (media_outcome (r, e), w\<lparr>trace := trace w @ [Lookup (media_args bytes)]\<rparr>)
        \<and> net_calls (snd (upload_media net now bytes w)) = net_calls w)
   \<and> (\<not> fresh now (cache w (media_args bytes)) \<and> api_key w \<noteq> [] \<longrightarrow>
          (\<exists>c. build_call (api_key w) (media_args bytes) = Some c
              \<and> verb c = ''POST'' \<and> url c = base_url @ ''/media''
              \<and> multipart c = Some [(''files'', bytes)]
              \<and> upload_media net now bytes w
                  = (media_outcome (classify (net c)),
                     w\<lparr>cache := (cache w)(media_args bytes \<mapsto> (classify (net c), now)),
                       trace := trace w @ [Lookup (media_args bytes),
                                           BodyRun (media_args bytes), NetCall c]\<rparr>)
              \<and> net_calls (snd (upload_media net now bytes w)) = net_calls w @ [c]))"
proof (intro conjI impI allI)
  assume v: "validate_post (content f) (selected_accounts f) = []"
  show "\<exists>zs. trace (snd (submit_post net now f w))
              = trace w @ Lookup (post_args ''/posts'' (post_data f)) # zs"
    by (rule submit_post_lookup [OF v])
  show "submit_post net now f w
            = (post_shown (r, e),
               w\<lparr>trace := trace w @ [Lookup (post_args ''/posts'' (post_data f))]\<rparr>)"
    if "cache w (post_args ''/posts'' (post_data f)) = Some ((r, e), ts) \<and> now < ts + 300"
    for r e ts
    using submit_post_hit [OF v, of w r e ts now net] that by blast
  show "net_calls (snd (submit_post net now f w)) = net_calls w"
    if "cache w (post_args ''/posts'' (post_data f)) = Some ((r, e), ts) \<and> now < ts + 300"
    for r e ts
    using submit_post_hit [OF v, of w r e ts now net] that by blast
  show "\<exists>c. build_call (api_key w) (post_args ''/posts'' (post_data f)) = Some c
              \<and> verb c = ''POST'' \<and> url c = base_url @ ''/posts''
              \<and> json_body c = post_data f
              \<and> submit_post net now f w
                  = (post_shown (classify (net c)),
                     w\<lparr>cache := (cache w)(post_args ''/posts'' (post_data f)
                                            \<mapsto> (classify (net c), now)),
                       trace := trace w @ [Lookup (post_args ''/posts'' (post_data f)),
                                           BodyRun (post_args ''/posts'' (post_data f)),
                                           NetCall c]\<rparr>)
              \<and> net_calls (snd (submit_post net now f w)) = net_calls w @ [c]"
    if "\<not> fresh now (cache w (post_args ''/posts'' (post_data f))) \<and> api_key w \<noteq> []"
    using submit_post_miss [OF v, of now w net] that by blast
next
  assume n: "2 \<le> length (py_strip name)"
  show "\<exists>zs. trace (snd (create_profile net now name description color set_default w))
              = trace w @ Lookup (post_args ''/profiles''
                                    (profile_data name description color set_default)) # zs"
    by (rule create_profile_lookup [OF n])
  show "create_profile net now name description color set_default w
            = after_create net now name (r, e)
                (w\<lparr>trace := trace w @ [Lookup (post_args ''/profiles''
                                   (profile_data name description color set_default))]\<rparr>)"
    if "cache w (post_args ''/profiles'' (profile_data name description color set_default))
          = Some ((r, e), ts) \<and> now < ts + 300" for r e ts
    using create_profile_hit [OF n, of w description color set_default r e ts now net] that
    by blast
  show "filter (\<lambda>c. verb c = ''POST'')
             (net_calls (snd (create_profile net now name description color set_default w)))
           = filter (\<lambda>c. verb c = ''POST'') (net_calls w)"
    if "cache w (post_args ''/profiles'' (profile_data name description color set_default))
          = Some ((r, e), ts) \<and> now < ts + 300" for r e ts
    using create_profile_hit [OF n, of w description color set_default r e ts now net] that
    by blast
  show "\<exists>c. build_call (api_key w) (post_args ''/profiles''
                                         (profile_data name description color set_default))
                  = Some c
              \<and> verb c = ''POST'' \<and> url c = base_url @ ''/profiles''
              \<and> json_body c = profile_data name description color set_default
              \<and> create_profile net now name description color set_default w
                  = after_create net now name (classify (net c))
                      (w\<lparr>cache := (cache w)(post_args ''/profiles''
                                       (profile_data name description color set_default)
                                     \<mapsto> (classify (net c), now)),
                         trace := trace w
                           @ [Lookup (post_args ''/profiles''
                                        (profile_data name description color set_default)),
                              BodyRun (post_args ''/profiles''
                                         (profile_data name description color set_default)),
                              NetCall c]\<rparr>)
              \<and> (\<exists>cs. net_calls (snd (create_profile net now name description color
                                            set_default w))
                         = net_calls w @ c # cs
                       \<and> (\<forall>x\<in>set cs. verb x = ''GET''))"
    if "\<not> fresh now (cache w (post_args ''/profiles''
                                (profile_data name description color set_default)))
        \<and> api_key w \<noteq> []"
    using create_profile_miss [OF n, of now w description color set_default net] that by blast
next
  show "\<exists>zs. trace (snd (upload_media net now bytes w))
              = trace w @ Lookup (media_args bytes) # zs"
    by (rule upload_media_lookup)
  show "upload_media net now bytes w
            = (media_outcome (r, e), w\<lparr>trace := trace w @ [Lookup (media_args bytes)]\<rparr>)"
    if "cache w (media_args bytes) = Some ((r, e), ts) \<and> now < ts + 300" for r e ts
    using upload_media_hit [of w bytes r e ts now net] that by blast
  show "net_calls (snd (upload_media net now bytes w)) = net_calls w"
    if "cache w (media_args bytes) = Some ((r, e), ts) \<and> now < ts + 300" for r e ts
    using upload_media_hit [of w bytes r e ts now net] that by blast
  show "\<exists>c. build_call (api_key w) (media_args bytes) = Some c
              \<and> verb c = ''POST'' \<and> url c = base_url @ ''/media''
              \<and> multipart c = Some [(''files'', bytes)]
              \<and> upload_media net now bytes w
                  = (media_outcome (classify (net c)),
                     w\<lparr>cache := (cache w)(media_args bytes \<mapsto> (classify (net c), now)),
                       trace := trace w @ [Lookup (media_args bytes),
                                           BodyRun (media_args bytes), NetCall c]\<rparr>)
              \<and> net_calls (snd (upload_media net now bytes w)) = net_calls w @ [c]"
    if "\<not> fresh now (cache w (media_args bytes)) \<and> api_key w \<noteq> []"
    using upload_media_miss [of now w bytes net] that by blast
qed

theorem mutations_go_through_the_cache_witness:
  "validate_post (content text_form) (selected_accounts text_form) = []
   \<and> cache (snd (submit_post (net_const created_reply) 0 text_form keyed_world))
         (post_args ''/posts'' (post_data text_form))
       = Some ((JObj [(''_id'', JStr ''42'')], None), 0)
   \<and> fst (submit_post (net_const TimeoutExc) 5 text_form
            (snd (submit_post (net_const created_reply) 0 text_form keyed_world)))
       = [UiSuccess ''Post scheduled successfully!'']
   \<and> net_calls (snd (submit_post (net_const TimeoutExc) 5 text_form
            (snd (submit_post (net_const created_reply) 0 text_form keyed_world))))
       = net_calls (snd (submit_post (net_const created_reply) 0 text_form keyed_world))
   \<and> \<not> fresh 0 (cache keyed_world (media_args ''PNG'')) \<and> api_key keyed_world \<noteq> []
   \<and> length (net_calls (snd (upload_media (net_const TimeoutExc) 0 ''PNG'' keyed_world))) = 1
   \<and> 2 \<le> length (py_strip ''Main'')
   \<and> (\<exists>zs. trace (snd (create_profile (net_const created_reply) 0 ''Main'' [] ''#1f77b4'' False
                          keyed_world))
           = trace keyed_world
             @ Lookup (post_args ''/profiles'' (profile_data ''Main'' [] ''#1f77b4'' False)) # zs)"
proof -
  let ?w1 = "snd (submit_post (net_const created_reply) 0 text_form keyed_world)"
  let ?K = "post_args ''/posts'' (post_data text_form)"
  have v: "validate_post (content text_form) (selected_accounts text_form) = []"
    by (simp add: mutation_defs)
  have c: "cache ?w1 ?K = Some ((JObj [(''_id'', JStr ''42'')], None), 0)"
    by (simp add: eval_defs mutation_defs)
  have t: "(5::nat) < 0 + 300" by simp
  have m: "\<not> fresh 0 (cache keyed_world (media_args ''PNG''))"
    by (simp add: fresh_def keyed_world_def init_world_def)
  have k: "api_key keyed_world \<noteq> []"
    by (simp add: keyed_world_def)
  have e: "net_calls keyed_world = []"
    by (simp add: net_calls_def keyed_world_def init_world_def)
  have n: "2 \<le> length (py_strip ''Main'')"
    by (simp add: py_strip_def py_isspace_def)
  note hit = mutations_go_through_the_cache
      [where f = text_form and net = "net_const TimeoutExc" and now = 5 and w = ?w1
         and name = "''Main''" and description = "[]" and color = "''#1f77b4''"
         and set_default = False and bytes = "''PNG''"]
  note miss = mutations_go_through_the_cache
      [where f = text_form and net = "net_const TimeoutExc" and now = 0 and w = keyed_world
         and name = "''Main''" and description = "[]" and color = "''#1f77b4''"
         and set_default = False and bytes = "''PNG''"]
  note prof = mutations_go_through_the_cache
      [where f = text_form and net = "net_const created_reply" and now = 0 and w = keyed_world
         and name = "''Main''" and description = "[]" and color = "''#1f77b4''"
         and set_default = False and bytes = "''PNG''"]
  from hit v c t
  have h: "submit_post (net_const TimeoutExc) 5 text_form ?w1
             = (post_shown (JObj [(''_id'', JStr ''42'')], None),
                ?w1\<lparr>trace := trace ?w1 @ [Lookup ?K]\<rparr>)
           \<and> net_calls (snd (submit_post (net_const TimeoutExc) 5 text_form ?w1)) = net_calls ?w1"
    by blast
  then have shown: "fst (submit_post (net_const TimeoutExc) 5 text_form ?w1)
                      = [UiSuccess ''Post scheduled successfully!'']"
    by (simp add: post_shown_def)
  from miss m k obtain call where
    "net_calls (snd (upload_media (net_const TimeoutExc) 0 ''PNG'' keyed_world))
       = net_calls keyed_world @ [call]"
    by blast
  with e have sent: "length (net_calls (snd (upload_media (net_const TimeoutExc) 0 ''PNG''
                                              keyed_world))) = 1"
    by simp
  from prof n
  have look: "\<exists>zs. trace (snd (create_profile (net_const created_reply) 0 ''Main'' [] ''#1f77b4''
                          False keyed_world))
           = trace keyed_world
             @ Lookup (post_args ''/profiles'' (profile_data ''Main'' [] ''#1f77b4'' False)) # zs"
    by blast
  from v c shown h m k sent n look show ?thesis by blast
qed

text \<open>
  As stated (each invocation performs its own network call) C2 fails: the same post
  submitted at clock 0 and again at clock 5 reports success twice with one network call.
\<close>

theorem mutations_bypass_cache_counterexample:
  "fst (submit_post (net_const created_reply) 0 text_form keyed_world)
     = [UiSuccess ''Post scheduled successfully!'']
   \<and> length (net_calls (snd (submit_post (net_const created_reply) 0 text_form keyed_world))) = 1
   \<and> fst (submit_post (net_const created_reply) 5 text_form
            (snd (submit_post (net_const created_reply) 0 text_form keyed_world)))
     = [UiSuccess ''Post scheduled successfully!'']
   \<and> length (net_calls (snd (submit_post (net_const created_reply) 5 text_form
            (snd (submit_post (net_const created_reply) 0 text_form keyed_world))))) = 1"
  by (simp add: eval_defs mutation_defs)

end
